theory Spec2Isabelle
  imports Main "HOL-Library.Char_ord" "HOL-Library.List_Lexorder" "HOL-Library.Multiset"
begin

section \<open>JSON-like values and JavaScript objects\<close>

text \<open>
  The values that travel through the cache (\<open>data: any\<close>, \<open>options: any\<close>) are JSON-like:
  null, booleans, numbers, strings, arrays and plain objects. An object is the list of its
  own enumerable properties in enumeration order (the order of \<open>Object.keys\<close>); a JavaScript
  object holds each key once, which \<open>wf_json\<close> states. Numbers are integers here and strings
  are compared code unit by code unit, as \<open>Array.prototype.sort\<close> without a comparator does.
\<close>

datatype json =
    JNull
  | JBool bool
  | JNum int
  | JStr string
  | JArr "json list"
  | JObj "(string \<times> json) list"

fun wf_json :: "json \<Rightarrow> bool" where
  "wf_json (JArr xs) = list_all wf_json xs"
| "wf_json (JObj ps) = (distinct (map fst ps) \<and> list_all (\<lambda>(k, v). wf_json v) ps)"
| "wf_json v = True"

text \<open>
  An ordinary object enumerates its array-index keys (canonical decimal strings below
  \<open>2^32 - 1\<close>) first, in ascending numeric order, and then its other string keys in the
  order of their creation. \<open>js_define\<close> is the creation of a data property
  (as \<open>Object.fromEntries\<close> does); \<open>js_assign\<close> is the assignment \<open>obj[key] = value\<close> on
  an object created by \<open>{}\<close>, where the key \<open>__proto__\<close> reaches the setter inherited from
  \<open>Object.prototype\<close> and creates no own property.
\<close>

definition is_digit :: "char \<Rightarrow> bool" where
  "is_digit c = (CHR ''0'' \<le> c \<and> c \<le> CHR ''9'')"

definition digits_value :: "string \<Rightarrow> int" where
  "digits_value s = foldl (\<lambda>n c. 10 * n + (of_char c - 48)) 0 s"

definition array_index :: "string \<Rightarrow> int option" where
  "array_index s =
     (if s \<noteq> [] \<and> list_all is_digit s \<and> (s = ''0'' \<or> hd s \<noteq> CHR ''0'')
         \<and> digits_value s < 2 ^ 32 - 1
      then Some (digits_value s) else None)"

fun insert_index :: "int \<Rightarrow> string \<Rightarrow> json \<Rightarrow> (string \<times> json) list \<Rightarrow> (string \<times> json) list" where
  "insert_index n k v [] = [(k, v)]"
| "insert_index n k v ((k', v') # ps) =
     (case array_index k' of
        Some m \<Rightarrow> if m < n then (k', v') # insert_index n k v ps else (k, v) # (k', v') # ps
      | None \<Rightarrow> (k, v) # (k', v') # ps)"

definition js_define :: "string \<Rightarrow> json \<Rightarrow> (string \<times> json) list \<Rightarrow> (string \<times> json) list" where
  "js_define k v ps =
     (if k \<in> fst ` set ps then map (\<lambda>(k', v'). if k' = k then (k', v) else (k', v')) ps
      else case array_index k of
             Some n \<Rightarrow> insert_index n k v ps
           | None \<Rightarrow> ps @ [(k, v)])"

definition js_assign :: "string \<Rightarrow> json \<Rightarrow> (string \<times> json) list \<Rightarrow> (string \<times> json) list" where
  "js_assign k v ps = (if k = ''__proto__'' then ps else js_define k v ps)"

definition Object_fromEntries :: "(string \<times> json) list \<Rightarrow> json" where
  "Object_fromEntries es = JObj (fold (\<lambda>(k, v). js_define k v) es [])"

text \<open>
  Truthiness of a JSON-like value, as \<open>if (value)\<close> tests it: null, false, 0 and the empty
  string are falsy; every array and object is truthy.
\<close>

fun truthy :: "json \<Rightarrow> bool" where
  "truthy JNull = False"
| "truthy (JBool b) = b"
| "truthy (JNum n) = (n \<noteq> 0)"
| "truthy (JStr s) = (s \<noteq> [])"
| "truthy (JArr xs) = True"
| "truthy (JObj ps) = True"

text \<open>
  Deep equality of two JSON-like values: the same scalars, arrays equal element by element,
  objects with the same keys and deep-equal values under each key, whatever the order in
  which the keys were inserted.
\<close>

fun deep_equal :: "json \<Rightarrow> json \<Rightarrow> bool" where
  "deep_equal JNull JNull = True"
| "deep_equal (JBool a) (JBool b) = (a = b)"
| "deep_equal (JNum a) (JNum b) = (a = b)"
| "deep_equal (JStr a) (JStr b) = (a = b)"
| "deep_equal (JArr xs) (JArr ys) = list_all2 deep_equal xs ys"
| "deep_equal (JObj ps) (JObj qs) =
     (length ps = length qs \<and>
      list_all (\<lambda>(k, v). case map_of qs k of None \<Rightarrow> False | Some w \<Rightarrow> deep_equal v w) ps)"
| "deep_equal v w = False"

section \<open>Library functions\<close>

text \<open>
  The functions of the platform that the cache manager calls are parameters of the model:
  \<open>JSON.stringify(v)\<close>, \<open>JSON.stringify(v, null, 2)\<close>, \<open>JSON.parse\<close> (\<open>None\<close> is a
  \<open>SyntaxError\<close>), \<open>path.join\<close> and the hex digest of SHA-256. Strings are byte strings, so
  \<open>Buffer.byteLength(s, 'utf-8')\<close> is \<open>length s\<close>.
\<close>

record runtime =
  JSON_stringify :: "json \<Rightarrow> string"
  JSON_stringify_pretty :: "json \<Rightarrow> string"
  JSON_parse :: "string \<Rightarrow> json option"
  path_join :: "string \<Rightarrow> string \<Rightarrow> string"
  sha256_hex :: "string \<Rightarrow> string"

section \<open>The fingerprint: \<open>sortObjectKeys\<close> and \<open>generateCacheKey\<close>\<close>

fun sortObjectKeys :: "json \<Rightarrow> json" where
  "sortObjectKeys (JArr xs) = JArr (map sortObjectKeys xs)"
| "sortObjectKeys (JObj ps) =
     JObj (fold (\<lambda>(k, v). js_assign k (sortObjectKeys v)) (sort_key fst ps) [])"
| "sortObjectKeys v = v"

definition generateCacheKey :: "runtime \<Rightarrow> string \<Rightarrow> json \<Rightarrow> json \<Rightarrow> string" where
  "generateCacheKey rt templateId data options =
     (let payload = JObj [(''templateId'', JStr templateId),
                          (''data'', sortObjectKeys data),
                          (''options'', sortObjectKeys options)];
          hash = sha256_hex rt (JSON_stringify rt payload)
      in templateId @ ''_'' @ take 16 hash)"

section \<open>The file system and the trace of external calls\<close>

text \<open>
  The world outside the process: the files (path to text), the paths whose removal the
  operating system refuses, and the trace of every call that leaves the process, in order.
  \<open>fs.readFile\<close> is rejected when the file is missing, \<open>fs.unlink\<close> when the file is
  missing or may not be removed; \<open>fs.writeFile\<close> creates or replaces the file in place
  (the cache directory exists and is writable once \<open>initialize\<close> has run).
\<close>

datatype event =
    FsReadFile string
  | FsWriteFile string string
  | FsUnlink string
  | LoadAssets "string list"
  | RenderPartials "string list"
  | RenderTemplate string
  | HtmlToPdf string

record world =
  files :: "string \<rightharpoonup> string"
  unlink_denied :: "string set"
  trace :: "event list"

definition fs_readFile :: "string \<Rightarrow> world \<Rightarrow> string option \<times> world" where
  "fs_readFile p w = (files w p, w\<lparr>trace := trace w @ [FsReadFile p]\<rparr>)"

definition fs_writeFile :: "string \<Rightarrow> string \<Rightarrow> world \<Rightarrow> world" where
  "fs_writeFile p c w = w\<lparr>files := (files w)(p \<mapsto> c), trace := trace w @ [FsWriteFile p c]\<rparr>"

definition fs_unlink :: "string \<Rightarrow> world \<Rightarrow> bool \<times> world" where
  "fs_unlink p w =
     (if files w p \<noteq> None \<and> p \<notin> unlink_denied w
      then (True, w\<lparr>files := (files w)(p := None), trace := trace w @ [FsUnlink p]\<rparr>)
      else (False, w\<lparr>trace := trace w @ [FsUnlink p]\<rparr>))"

definition unlinked :: "event list \<Rightarrow> string list" where
  "unlinked tr = concat (map (\<lambda>e. case e of FsUnlink p \<Rightarrow> [p] | _ \<Rightarrow> []) tr)"

section \<open>The cache manager\<close>

text \<open>
  \<open>cacheIndex\<close> is a JavaScript \<open>Map\<close>: it iterates in insertion order, \<open>set\<close> on a key it
  holds replaces the value where it stands, and it holds each key once.
\<close>

record CacheEntry =
  key :: string
  data :: json
  timestamp :: int
  expiresAt :: int
  size_bytes :: int
  metadata :: "json option"

record CacheManager =
  cacheDir :: string
  maxSize :: int
  defaultTTL :: int
  cacheIndex :: "(string \<times> CacheEntry) list"

definition Map_set :: "'k \<Rightarrow> 'v \<Rightarrow> ('k \<times> 'v) list \<Rightarrow> ('k \<times> 'v) list" where
  "Map_set k v m =
     (if k \<in> fst ` set m then map (\<lambda>(k', v'). if k' = k then (k', v) else (k', v')) m
      else m @ [(k, v)])"

definition Map_delete :: "'k \<Rightarrow> ('k \<times> 'v) list \<Rightarrow> ('k \<times> 'v) list" where
  "Map_delete k m = filter (\<lambda>(k', v'). k' \<noteq> k) m"

definition CacheManager_new :: "string \<Rightarrow> int \<Rightarrow> int \<Rightarrow> CacheManager" where
  "CacheManager_new dir max_size ttl =
     \<lparr>cacheDir = dir, maxSize = max_size, defaultTTL = ttl, cacheIndex = []\<rparr>"

definition getCacheFilePath :: "runtime \<Rightarrow> CacheManager \<Rightarrow> string \<Rightarrow> string" where
  "getCacheFilePath rt cm k = path_join rt (cacheDir cm) (k @ ''.json'')"

definition indexPath :: "runtime \<Rightarrow> CacheManager \<Rightarrow> string" where
  "indexPath rt cm = path_join rt (cacheDir cm) ''index.json''"

definition entry_json :: "CacheEntry \<Rightarrow> json" where
  "entry_json e =
     JObj ([(''key'', JStr (key e)), (''data'', data e), (''timestamp'', JNum (timestamp e)),
            (''expiresAt'', JNum (expiresAt e)), (''size'', JNum (size_bytes e))]
           @ (case metadata e of None \<Rightarrow> [] | Some m \<Rightarrow> [(''metadata'', m)]))"

definition index_json :: "(string \<times> CacheEntry) list \<Rightarrow> json" where
  "index_json idx = Object_fromEntries (map (\<lambda>(k, e). (k, entry_json e)) idx)"

definition saveCacheIndex :: "runtime \<Rightarrow> CacheManager \<Rightarrow> world \<Rightarrow> world" where
  "saveCacheIndex rt cm w =
     fs_writeFile (indexPath rt cm) (JSON_stringify_pretty rt (index_json (cacheIndex cm))) w"

text \<open>
  \<open>delete\<close>: the rejection of \<open>fs.unlink\<close> is caught and ignored; the entry leaves the index
  and the index is saved again.
\<close>

definition delete :: "runtime \<Rightarrow> string \<Rightarrow> CacheManager \<Rightarrow> world \<Rightarrow> bool \<times> CacheManager \<times> world" where
  "delete rt k cm w =
     (case map_of (cacheIndex cm) k of
        None \<Rightarrow> (False, cm, w)
      | Some entry \<Rightarrow>
          let w1 = snd (fs_unlink (getCacheFilePath rt cm k) w);
              cm1 = cm\<lparr>cacheIndex := Map_delete k (cacheIndex cm)\<rparr>;
              w2 = saveCacheIndex rt cm1 w1
          in (True, cm1, w2))"

text \<open>
  \<open>get\<close>, with \<open>now\<close> the value of \<open>Date.now()\<close>. The result \<open>JNull\<close> is JavaScript's
  \<open>null\<close>. A file that cannot be read or parsed sends the call to the \<open>catch\<close> branch.
\<close>

definition get :: "runtime \<Rightarrow> string \<Rightarrow> int \<Rightarrow> CacheManager \<Rightarrow> world \<Rightarrow> json \<times> CacheManager \<times> world" where
  "get rt k now cm w =
     (case map_of (cacheIndex cm) k of
        None \<Rightarrow> (JNull, cm, w)
      | Some entry \<Rightarrow>
          if now > expiresAt entry then
            (case delete rt k cm w of (_, cm1, w1) \<Rightarrow> (JNull, cm1, w1))
          else
            (case fs_readFile (getCacheFilePath rt cm k) w of
               (None, w1) \<Rightarrow> (case delete rt k cm w1 of (_, cm2, w2) \<Rightarrow> (JNull, cm2, w2))
             | (Some fileContent, w1) \<Rightarrow>
                 (case JSON_parse rt fileContent of
                    None \<Rightarrow> (case delete rt k cm w1 of (_, cm2, w2) \<Rightarrow> (JNull, cm2, w2))
                  | Some v \<Rightarrow> (v, cm, w1))))"

text \<open>
  \<open>ensureSpace\<close>. \<open>current_size\<close> is the first loop (the sum of the sizes in the index),
  \<open>oldest_step\<close> the body of the inner loop that looks for the entry with the smallest
  timestamp, starting from \<open>Number.MAX_SAFE_INTEGER\<close>. When the inner loop finds no key, or
  finds the empty string (which \<open>if (oldestKey)\<close> takes for false), the body of the \<open>while\<close>
  loop changes nothing and the loop never exits: the result is \<open>None\<close>.
\<close>

definition MAX_SAFE_INTEGER :: int where
  "MAX_SAFE_INTEGER = 9007199254740991"

definition current_size :: "(string \<times> CacheEntry) list \<Rightarrow> int" where
  "current_size idx = sum_list (map (\<lambda>(k, e). size_bytes e) idx)"

definition oldest_step :: "string \<times> CacheEntry \<Rightarrow> string option \<times> int \<Rightarrow> string option \<times> int" where
  "oldest_step = (\<lambda>(k, e) (oldestKey, oldestTimestamp).
     if timestamp e < oldestTimestamp then (Some k, timestamp e) else (oldestKey, oldestTimestamp))"

definition find_oldest :: "(string \<times> CacheEntry) list \<Rightarrow> string option" where
  "find_oldest idx = fst (fold oldest_step idx (None, MAX_SAFE_INTEGER))"

function ensureSpace_loop ::
  "runtime \<Rightarrow> int \<Rightarrow> int \<Rightarrow> CacheManager \<Rightarrow> world \<Rightarrow> (CacheManager \<times> world) option" where
  "ensureSpace_loop rt newEntrySize currentSize cm w =
     (if currentSize + newEntrySize > maxSize cm \<and> length (cacheIndex cm) > 0 then
        (case find_oldest (cacheIndex cm) of
           None \<Rightarrow> None
         | Some oldestKey \<Rightarrow>
             if oldestKey = [] then None
             else
               (case map_of (cacheIndex cm) oldestKey of
                  None \<Rightarrow> None
                | Some removedEntry \<Rightarrow>
                    (case delete rt oldestKey cm w of
                       (_, cm1, w1) \<Rightarrow>
                         ensureSpace_loop rt newEntrySize (currentSize - size_bytes removedEntry) cm1 w1)))
      else Some (cm, w))"
  by pat_completeness auto
termination
  by (relation "measure (\<lambda>(rt, n, c, cm, w). length (cacheIndex cm))")
     (auto simp: delete_def Let_def Map_delete_def split: option.splits
           dest!: map_of_SomeD intro!: length_filter_less)

definition ensureSpace :: "runtime \<Rightarrow> int \<Rightarrow> CacheManager \<Rightarrow> world \<Rightarrow> (CacheManager \<times> world) option" where
  "ensureSpace rt newEntrySize cm w =
     ensureSpace_loop rt newEntrySize (current_size (cacheIndex cm)) cm w"

text \<open>
  \<open>set\<close>. \<open>ttl = None\<close> is a call without the argument, which takes \<open>defaultTTL\<close>.
  \<open>now1\<close> and \<open>now2\<close> are the two values of \<open>Date.now()\<close> read for \<open>timestamp\<close> and for
  \<open>expiresAt\<close>. The result is \<open>None\<close> when \<open>ensureSpace\<close> never returns.
\<close>

definition set' ::
  "runtime \<Rightarrow> string \<Rightarrow> json \<Rightarrow> int option \<Rightarrow> json option \<Rightarrow> int \<Rightarrow> int \<Rightarrow> CacheManager \<Rightarrow> world
     \<Rightarrow> (CacheManager \<times> world) option" where
  "set' rt k dat ttl md now1 now2 cm w =
     (let serializedData = JSON_stringify rt dat;
          size = int (length serializedData)
      in case ensureSpace rt size cm w of
           None \<Rightarrow> None
         | Some (cm1, w1) \<Rightarrow>
             let entry = \<lparr>key = k, data = dat, timestamp = now1,
                          expiresAt = now2 + (case ttl of None \<Rightarrow> defaultTTL cm | Some t \<Rightarrow> t),
                          size_bytes = size, metadata = md\<rparr>;
                 w2 = fs_writeFile (getCacheFilePath rt cm1 k) serializedData w1;
                 cm2 = cm1\<lparr>cacheIndex := Map_set k entry (cacheIndex cm1)\<rparr>;
                 w3 = saveCacheIndex rt cm2 w2
             in Some (cm2, w3))"

section \<open>A concrete runtime for examples\<close>

text \<open>
  To run the model on concrete inputs the library parameters are instantiated: a compact
  JSON printer, \<open>JSON.parse\<close> as its inverse on a given list of documents, path
  concatenation with a slash, and a stand-in for the digest.
\<close>

definition digit_char :: "int \<Rightarrow> char" where
  "digit_char d = char_of (48 + d)"

function decimal :: "int \<Rightarrow> string" where
  "decimal n = (if n < 10 then [digit_char n] else decimal (n div 10) @ [digit_char (n mod 10)])"
  by pat_completeness auto
termination
  by (relation "measure nat") auto

definition show_int :: "int \<Rightarrow> string" where
  "show_int n = (if n < 0 then ''-'' @ decimal (- n) else decimal n)"

fun join_comma :: "string list \<Rightarrow> string" where
  "join_comma [] = []"
| "join_comma [s] = s"
| "join_comma (s # t # ss) = s @ '','' @ join_comma (t # ss)"

definition quoted :: "string \<Rightarrow> string" where
  "quoted s = [CHR 0x22] @ s @ [CHR 0x22]"

fun JSON_text :: "json \<Rightarrow> string" where
  "JSON_text JNull = ''null''"
| "JSON_text (JBool b) = (if b then ''true'' else ''false'')"
| "JSON_text (JNum n) = show_int n"
| "JSON_text (JStr s) = quoted s"
| "JSON_text (JArr xs) = ''['' @ join_comma (map JSON_text xs) @ '']''"
| "JSON_text (JObj ps) =
     ''{'' @ join_comma (map (\<lambda>(k, v). quoted k @ '':'' @ JSON_text v) ps) @ ''}''"

definition example_runtime :: "json list \<Rightarrow> runtime" where
  "example_runtime docs =
     \<lparr>JSON_stringify = JSON_text,
      JSON_stringify_pretty = JSON_text,
      JSON_parse = (\<lambda>s. find (\<lambda>d. JSON_text d = s) docs),
      path_join = (\<lambda>a b. a @ ''/'' @ b),
      sha256_hex = (\<lambda>s. s)\<rparr>"

text \<open>\<open>set(k, v)\<close> followed by \<open>get(k)\<close> at time \<open>now\<close>, with nothing in between.\<close>

definition set_then_get ::
  "runtime \<Rightarrow> string \<Rightarrow> json \<Rightarrow> int option \<Rightarrow> json option \<Rightarrow> int \<Rightarrow> int \<Rightarrow> int \<Rightarrow> CacheManager \<Rightarrow> world
     \<Rightarrow> (json \<times> CacheManager \<times> world) option" where
  "set_then_get rt k v ttl md now1 now2 now cm w =
     (case set' rt k v ttl md now1 now2 cm w of
        None \<Rightarrow> None
      | Some (cm1, w1) \<Rightarrow> Some (get rt k now cm1 w1))"

definition empty_world :: world where
  "empty_world = \<lparr>files = Map.empty, unlink_denied = {}, trace = []\<rparr>"

definition example_entry :: "string \<Rightarrow> int \<Rightarrow> int \<Rightarrow> int \<Rightarrow> CacheEntry" where
  "example_entry k ts ex sz =
     \<lparr>key = k, data = JNull, timestamp = ts, expiresAt = ex, size_bytes = sz, metadata = None\<rparr>"

text \<open>
  Eviction as the specification words it, without the restriction to entries that have not
  expired: of the entries in the order of their timestamps (\<open>by_timestamp\<close>, which keeps
  the order of insertion among equal timestamps), remove the oldest, one at a time, as long
  as what is left together with the new entry exceeds the capacity.
\<close>

definition by_timestamp :: "(string \<times> CacheEntry) list \<Rightarrow> (string \<times> CacheEntry) list" where
  "by_timestamp idx = sort_key (\<lambda>(k, e). timestamp e) idx"

fun spec_evictions :: "int \<Rightarrow> int \<Rightarrow> (string \<times> CacheEntry) list \<Rightarrow> (string \<times> CacheEntry) list" where
  "spec_evictions cap n [] = []"
| "spec_evictions cap n (x # xs) =
     (if current_size (x # xs) + n > cap then x # spec_evictions cap n xs else [])"

text \<open>
  The first eviction the specification asks for at time \<open>now\<close>: the entry with the smallest
  timestamp among those that have not expired.
\<close>

definition oldest_non_expired :: "int \<Rightarrow> (string \<times> CacheEntry) list \<Rightarrow> string option" where
  "oldest_non_expired now idx =
     (case by_timestamp (filter (\<lambda>(k, e). \<not> now > expiresAt e) idx) of
        [] \<Rightarrow> None
      | (k, e) # rest \<Rightarrow> Some k)"

text \<open>A sequence of \<open>set\<close> calls, each with its arguments and its two clock readings.\<close>

record set_call =
  call_key :: string
  call_data :: json
  call_ttl :: "int option"
  call_metadata :: "json option"
  call_now1 :: int
  call_now2 :: int

fun set_calls :: "runtime \<Rightarrow> set_call list \<Rightarrow> CacheManager \<Rightarrow> world \<Rightarrow> (CacheManager \<times> world) option" where
  "set_calls rt [] cm w = Some (cm, w)"
| "set_calls rt (c # cs) cm w =
     (case set' rt (call_key c) (call_data c) (call_ttl c) (call_metadata c)
             (call_now1 c) (call_now2 c) cm w of
        None \<Rightarrow> None
      | Some (cm1, w1) \<Rightarrow> set_calls rt cs cm1 w1)"


definition example_store :: CacheManager where
  "example_store = (CacheManager_new ''cache'' 8 1000)
     \<lparr>cacheIndex := [(''a'', example_entry ''a'' 1 5 4), (''b'', example_entry ''b'' 2 100 4)]\<rparr>"



section \<open>The job ledger and the generation orchestrator\<close>

text \<open>
  A generation request. \<open>opt_other\<close> holds the remaining properties of the options object
  (format, margins, quality, watermark and so on); \<open>options_json\<close> is the object itself,
  which \<open>processJob\<close> hands to \<open>generateCacheKey\<close> as a whole.
\<close>

record GenerationOptions =
  opt_templateId :: string
  opt_data :: json
  opt_locale :: "string option"
  outputPath :: "string option"
  returnBuffer :: "bool option"
  opt_other :: "(string \<times> json) list"

definition options_json :: "GenerationOptions \<Rightarrow> json" where
  "options_json opts =
     Object_fromEntries
       ([(''templateId'', JStr (opt_templateId opts)), (''data'', opt_data opts)]
        @ (case opt_locale opts of None \<Rightarrow> [] | Some l \<Rightarrow> [(''locale'', JStr l)])
        @ (case outputPath opts of None \<Rightarrow> [] | Some p \<Rightarrow> [(''outputPath'', JStr p)])
        @ (case returnBuffer opts of None \<Rightarrow> [] | Some b \<Rightarrow> [(''returnBuffer'', JBool b)])
        @ opt_other opts)"

text \<open>
  A template of the registry. The schema is the validator it stands for: \<open>None\<close> when the
  data parses, otherwise the formatted issues of the \<open>ZodError\<close>.
\<close>

record TemplateConfig =
  tc_id :: string
  version :: string
  engine :: string
  templatePath :: string
  partials :: "string list option"
  assets :: "string list option"
  schema :: "json \<Rightarrow> string option"

datatype JobStatus = pending | processing | completed | failed

record GenerationJob =
  job_id :: string
  templateId :: string
  status :: JobStatus
  progress :: int
  job_data :: json
  job_options :: GenerationOptions
  result :: "json option"
  error :: "string option"
  createdAt :: int
  updatedAt :: int
  job_expiresAt :: "int option"

text \<open>
  The generator: the ledger of jobs (a \<open>Map\<close> from job id to job object), its cache manager
  and its output directory.
\<close>

record generator =
  jobs :: "(string \<times> GenerationJob) list"
  cacheManager :: CacheManager
  outputDir :: string

text \<open>
  The collaborators behind the renderer boundary are parameters: what \<open>loadAssets\<close>,
  \<open>renderPartials\<close>, the engine's \<open>render\<close> (together with \<open>prepareTemplateData\<close>) and
  \<open>renderHTMLToPDF\<close> answer (\<open>Some\<close> or \<open>Inl\<close> a message: the call throws an \<open>Error\<close> with
  that message), whether the engine has \<open>renderPartials\<close>, and the page count that
  \<open>getPageCount\<close> reads off the PDF. Each call to them is recorded in the trace.
\<close>

record collaborators =
  loadAssets_result :: "string list \<Rightarrow> string option"
  has_renderPartials :: "string \<Rightarrow> bool"
  renderPartials_result :: "string list \<Rightarrow> string option"
  render_result :: "TemplateConfig \<Rightarrow> GenerationOptions \<Rightarrow> string + string"
  renderHTMLToPDF_result :: "string \<Rightarrow> TemplateConfig \<Rightarrow> GenerationOptions \<Rightarrow> string + string"
  getPageCount :: "string \<Rightarrow> int"

fun is_renderer_call :: "event \<Rightarrow> bool" where
  "is_renderer_call (LoadAssets a) = True"
| "is_renderer_call (RenderPartials p) = True"
| "is_renderer_call (RenderTemplate t) = True"
| "is_renderer_call (HtmlToPdf h) = True"
| "is_renderer_call e = False"

definition renderer_calls :: "event list \<Rightarrow> event list" where
  "renderer_calls tr = filter is_renderer_call tr"

text \<open>
  The clock readings of one run of \<open>processJob\<close>, one for each place where the code reads
  the clock, and \<open>t_catch\<close> for the \<open>catch\<close> handler that \<open>generatePDF\<close> attaches.
\<close>

record job_clock =
  t_start :: int
  t_startTime :: int
  t_get :: int
  t_hit :: int
  t_set1 :: int
  t_set2 :: int
  t_end :: int
  t_done :: int
  t_fail :: int
  t_catch :: int

definition validateData :: "json \<Rightarrow> (json \<Rightarrow> string option) \<Rightarrow> string option" where
  "validateData d sch =
     (case sch d of None \<Rightarrow> None | Some issues \<Rightarrow> Some (''Data validation failed: '' @ issues))"

definition getTemplateExtension :: "string \<Rightarrow> string" where
  "getTemplateExtension e =
     (if e = ''handlebars'' then ''hbs'' else if e = ''ejs'' then ''ejs''
      else if e = ''pug'' then ''pug'' else ''html'')"

definition Buffer_json :: "string \<Rightarrow> json" where
  "Buffer_json bytes = JObj [(''type'', JStr ''Buffer''), (''data'', JArr (map (\<lambda>c. JNum (of_char c)) bytes))]"

text \<open>
  \<open>handleOutput\<close>: the result object and the write of the PDF. A \<open>Buffer\<close> stands in the
  result as the object that \<open>JSON.stringify\<close> makes of it.
\<close>

definition handleOutput ::
  "runtime \<Rightarrow> collaborators \<Rightarrow> string \<Rightarrow> string \<Rightarrow> GenerationOptions \<Rightarrow> string \<Rightarrow> world \<Rightarrow> json \<times> world" where
  "handleOutput rt col out_dir pdfBuffer opts jobId w =
     (let r0 = js_assign ''metadata''
                 (JObj [(''fileSize'', JNum (int (length pdfBuffer))),
                        (''pageCount'', JNum (getPageCount col pdfBuffer)),
                        (''generationTime'', JNum 0),
                        (''version'', JStr [])]) [];
          r1 = (if returnBuffer opts = Some True then js_assign ''pdfBuffer'' (Buffer_json pdfBuffer) r0
                else r0)
      in case outputPath opts of
           Some p \<Rightarrow>
             if p \<noteq> [] then (JObj (js_assign ''pdfPath'' (JStr p) r1), fs_writeFile p pdfBuffer w)
             else (JObj (js_assign ''pdfPath'' (JStr (path_join rt out_dir (jobId @ ''.pdf''))) r1),
                   fs_writeFile (path_join rt out_dir (jobId @ ''.pdf'')) pdfBuffer w)
         | None \<Rightarrow>
             (JObj (js_assign ''pdfPath'' (JStr (path_join rt out_dir (jobId @ ''.pdf''))) r1),
              fs_writeFile (path_join rt out_dir (jobId @ ''.pdf'')) pdfBuffer w))"

text \<open>
  The result that the job keeps after a render: the result of \<open>handleOutput\<close> with
  \<open>generationTime\<close> and \<open>version\<close> set in its metadata.
\<close>

definition with_generation_metadata :: "json \<Rightarrow> int \<Rightarrow> string \<Rightarrow> json" where
  "with_generation_metadata res generationTime ver =
     (case res of
        JObj ps \<Rightarrow>
          (case map_of ps ''metadata'' of
             Some (JObj ms) \<Rightarrow>
               JObj (js_define ''metadata''
                       (JObj (js_define ''version'' (JStr ver)
                                (js_define ''generationTime'' (JNum generationTime) ms))) ps)
           | _ \<Rightarrow> res)
      | _ \<Rightarrow> res)"

definition fail_job :: "GenerationJob \<Rightarrow> string \<Rightarrow> int \<Rightarrow> GenerationJob" where
  "fail_job job msg t = job\<lparr>status := failed, error := Some msg, updatedAt := t\<rparr>"

definition cacheKey_of :: "runtime \<Rightarrow> GenerationOptions \<Rightarrow> string" where
  "cacheKey_of rt opts =
     generateCacheKey rt (opt_templateId opts) (opt_data opts) (options_json opts)"

text \<open>
  \<open>processJob\<close> after a cache miss, step by step (steps 3 to 6 of the code, last step
  first). Every failure runs the \<open>catch\<close> block (\<open>fail_job\<close>) and rejects with the
  message. The result is \<open>None\<close> when \<open>set\<close> never returns.
\<close>

type_synonym job_outcome = "(string option \<times> GenerationJob \<times> CacheManager \<times> world) option"

definition rejected :: "GenerationJob \<Rightarrow> string \<Rightarrow> job_clock \<Rightarrow> CacheManager \<Rightarrow> world \<Rightarrow> job_outcome" where
  "rejected job msg clk cm w = Some (Some msg, fail_job job msg (t_fail clk), cm, w)"

definition processJob_output ::
  "runtime \<Rightarrow> collaborators \<Rightarrow> job_clock \<Rightarrow> string \<Rightarrow> GenerationJob \<Rightarrow> TemplateConfig \<Rightarrow> GenerationOptions
     \<Rightarrow> string \<Rightarrow> string \<Rightarrow> CacheManager \<Rightarrow> world \<Rightarrow> job_outcome" where
  "processJob_output rt col clk out_dir job templateConfig opts cacheKey pdfBuffer cm w =
     (let job7 = job\<lparr>progress := 90\<rparr>;
          (res, w5) = handleOutput rt col out_dir pdfBuffer opts (job_id job) w
      in case set' rt cacheKey res None None (t_set1 clk) (t_set2 clk) cm w5 of
           None \<Rightarrow> None
         | Some (cm1, w6) \<Rightarrow>
             Some (None,
                   job7\<lparr>result := Some (with_generation_metadata res (t_end clk - t_startTime clk)
                                             (version templateConfig)),
                         status := completed, progress := 100, updatedAt := t_done clk\<rparr>,
                   cm1, w6))"

definition processJob_pdf ::
  "runtime \<Rightarrow> collaborators \<Rightarrow> job_clock \<Rightarrow> string \<Rightarrow> GenerationJob \<Rightarrow> TemplateConfig \<Rightarrow> GenerationOptions
     \<Rightarrow> string \<Rightarrow> string \<Rightarrow> CacheManager \<Rightarrow> world \<Rightarrow> job_outcome" where
  "processJob_pdf rt col clk out_dir job templateConfig opts cacheKey html cm w =
     (let job6 = job\<lparr>progress := 70\<rparr>;
          w4 = w\<lparr>trace := trace w @ [HtmlToPdf html]\<rparr>
      in case renderHTMLToPDF_result col html templateConfig opts of
           Inl msg \<Rightarrow> rejected job6 msg clk cm w4
         | Inr pdfBuffer \<Rightarrow>
             processJob_output rt col clk out_dir job6 templateConfig opts cacheKey pdfBuffer cm w4)"

definition processJob_render ::
  "runtime \<Rightarrow> collaborators \<Rightarrow> job_clock \<Rightarrow> string \<Rightarrow> GenerationJob \<Rightarrow> TemplateConfig \<Rightarrow> GenerationOptions
     \<Rightarrow> string \<Rightarrow> CacheManager \<Rightarrow> world \<Rightarrow> job_outcome" where
  "processJob_render rt col clk out_dir job templateConfig opts cacheKey cm w =
     (let job5 = job\<lparr>progress := 50\<rparr>;
          w3 = w\<lparr>trace := trace w @ [RenderTemplate (templatePath templateConfig)]\<rparr>
      in case render_result col templateConfig opts of
           Inl msg \<Rightarrow> rejected job5 msg clk cm w3
         | Inr html \<Rightarrow>
             processJob_pdf rt col clk out_dir job5 templateConfig opts cacheKey html cm w3)"

definition processJob_engine ::
  "runtime \<Rightarrow> collaborators \<Rightarrow> job_clock \<Rightarrow> string \<Rightarrow> GenerationJob \<Rightarrow> TemplateConfig \<Rightarrow> GenerationOptions
     \<Rightarrow> string \<Rightarrow> CacheManager \<Rightarrow> world \<Rightarrow> job_outcome" where
  "processJob_engine rt col clk out_dir job templateConfig opts cacheKey cm w =
     (if engine templateConfig \<notin> {''handlebars'', ''ejs'', ''pug''} then
        rejected job (''Unsupported template engine: '' @ engine templateConfig) clk cm w
      else
        (case partials templateConfig of
           None \<Rightarrow> processJob_render rt col clk out_dir job templateConfig opts cacheKey cm w
         | Some ps \<Rightarrow>
             if has_renderPartials col (engine templateConfig) then
               (let partialPaths = map (\<lambda>p. p @ ''.'' @ getTemplateExtension (engine templateConfig)) ps;
                    w2 = w\<lparr>trace := trace w @ [RenderPartials partialPaths]\<rparr>
                in case renderPartials_result col partialPaths of
                     Some msg \<Rightarrow> rejected job msg clk cm w2
                   | None \<Rightarrow>
                       processJob_render rt col clk out_dir job templateConfig opts cacheKey cm w2)
             else processJob_render rt col clk out_dir job templateConfig opts cacheKey cm w))"

definition processJob_miss ::
  "runtime \<Rightarrow> collaborators \<Rightarrow> job_clock \<Rightarrow> string \<Rightarrow> GenerationJob \<Rightarrow> TemplateConfig \<Rightarrow> GenerationOptions
     \<Rightarrow> string \<Rightarrow> CacheManager \<Rightarrow> world \<Rightarrow> job_outcome" where
  "processJob_miss rt col clk out_dir job templateConfig opts cacheKey cm w =
     (let job3 = job\<lparr>progress := 30\<rparr>;
          groups = (case assets templateConfig of None \<Rightarrow> [] | Some a \<Rightarrow> a);
          w1 = w\<lparr>trace := trace w @ [LoadAssets groups]\<rparr>
      in case loadAssets_result col groups of
           Some msg \<Rightarrow> rejected job3 msg clk cm w1
         | None \<Rightarrow>
             processJob_engine rt col clk out_dir (job3\<lparr>progress := 40\<rparr>) templateConfig opts
               cacheKey cm w1)"

text \<open>
  \<open>processJob\<close>. \<open>processJob_start\<close> is what runs before the first \<open>await\<close>, that is before
  \<open>generatePDF\<close> returns. The first component of the result is the message of the
  rejection, if the promise rejects.
\<close>

definition processJob_start :: "job_clock \<Rightarrow> GenerationJob \<Rightarrow> GenerationJob" where
  "processJob_start clk job = job\<lparr>status := processing, progress := 10, updatedAt := t_start clk\<rparr>"

definition processJob_rest ::
  "runtime \<Rightarrow> collaborators \<Rightarrow> job_clock \<Rightarrow> string \<Rightarrow> GenerationJob \<Rightarrow> TemplateConfig \<Rightarrow> GenerationOptions
     \<Rightarrow> CacheManager \<Rightarrow> world \<Rightarrow> job_outcome" where
  "processJob_rest rt col clk out_dir job1 templateConfig opts cm w =
     (case validateData (opt_data opts) (schema templateConfig) of
        Some msg \<Rightarrow> rejected job1 msg clk cm w
      | None \<Rightarrow>
          let job2 = job1\<lparr>progress := 20\<rparr>;
              cacheKey = cacheKey_of rt opts
          in case get rt cacheKey (t_get clk) cm w of
               (cachedResult, cm1, w1) \<Rightarrow>
                 if truthy cachedResult then
                   Some (None,
                         job2\<lparr>result := Some cachedResult, status := completed, progress := 100,
                               updatedAt := t_hit clk\<rparr>,
                         cm1, w1)
                 else processJob_miss rt col clk out_dir job2 templateConfig opts cacheKey cm1 w1)"

definition processJob ::
  "runtime \<Rightarrow> collaborators \<Rightarrow> job_clock \<Rightarrow> string \<Rightarrow> GenerationJob \<Rightarrow> TemplateConfig \<Rightarrow> GenerationOptions
     \<Rightarrow> CacheManager \<Rightarrow> world \<Rightarrow> job_outcome" where
  "processJob rt col clk out_dir job templateConfig opts cm w =
     processJob_rest rt col clk out_dir (processJob_start clk job) templateConfig opts cm w"

text \<open>
  The template registry. \<open>TEMPLATE_REGISTRY\<close> is an object literal with four own properties,
  whose schemas are the validators \<open>schemas id\<close>; its prototype is \<open>Object.prototype\<close>.
\<close>

definition TEMPLATE_REGISTRY :: "(string \<Rightarrow> json \<Rightarrow> string option) \<Rightarrow> (string \<times> TemplateConfig) list" where
  "TEMPLATE_REGISTRY schemas =
     [(''business-plan'',
       \<lparr>tc_id = ''business-plan'', version = ''2.0.0'', engine = ''handlebars'',
        templatePath = ''templates/business-plan/index.hbs'',
        partials = Some [''header'', ''footer'', ''financial-table''],
        assets = Some [''logos'', ''charts''], schema = schemas ''business-plan''\<rparr>),
      (''proposal'',
       \<lparr>tc_id = ''proposal'', version = ''1.5.0'', engine = ''handlebars'',
        templatePath = ''templates/proposal/index.hbs'',
        partials = Some [''header'', ''footer'', ''service-item''],
        assets = Some [''logos''], schema = schemas ''proposal''\<rparr>),
      (''invoice'',
       \<lparr>tc_id = ''invoice'', version = ''1.0.0'', engine = ''handlebars'',
        templatePath = ''templates/invoice/index.hbs'',
        partials = Some [''header'', ''footer''],
        assets = Some [''logos''], schema = schemas ''invoice''\<rparr>),
      (''report'',
       \<lparr>tc_id = ''report'', version = ''1.0.0'', engine = ''handlebars'',
        templatePath = ''templates/report/index.hbs'',
        partials = Some [''header'', ''footer''],
        assets = Some [''logos''], schema = schemas ''report''\<rparr>)]"

text \<open>
  The property names that every object literal inherits from \<open>Object.prototype\<close>: eleven
  functions and the accessor \<open>__proto__\<close>, which reads as the prototype object itself.
\<close>

definition Object_prototype_names :: "string list" where
  "Object_prototype_names =
     [''constructor'', ''__defineGetter__'', ''__defineSetter__'', ''hasOwnProperty'',
      ''__lookupGetter__'', ''__lookupSetter__'', ''isPrototypeOf'', ''propertyIsEnumerable'',
      ''toString'', ''valueOf'', ''__proto__'', ''toLocaleString'']"

text \<open>
  The lookup \<open>registry[id]\<close> on a registry given by its own properties. It is the own
  property \<open>id\<close> when there is one; otherwise, for a name of \<open>Object.prototype\<close>, the
  inherited value, which is truthy and is no template configuration (it has no \<open>schema\<close>);
  otherwise \<open>undefined\<close>, which is \<open>None\<close>.
\<close>

datatype registry_value = Template TemplateConfig | Inherited

definition registry_lookup :: "(string \<times> TemplateConfig) list \<Rightarrow> string \<Rightarrow> registry_value option" where
  "registry_lookup registry tid =
     (case map_of registry tid of
        Some templateConfig \<Rightarrow> Some (Template templateConfig)
      | None \<Rightarrow> if tid \<in> set Object_prototype_names then Some Inherited else None)"

text \<open>
  \<open>processJob\<close> after its first \<open>await\<close>, on the value that the guard of \<open>generatePDF\<close> let
  through. On an inherited value \<open>templateConfig.schema\<close> is \<open>undefined\<close>, so
  \<open>schema.parseAsync(data)\<close> in \<open>validateData\<close> throws a \<open>TypeError\<close> (with the message that
  Node 20, the runtime of the Dockerfile, gives it); it is no \<open>ZodError\<close>, so \<open>validateData\<close>
  throws it again and \<open>processJob\<close> rejects with it.
\<close>

definition TypeError_parseAsync :: string where
  "TypeError_parseAsync =
     ''Cannot read properties of undefined (reading '' @ [CHR 0x27] @ ''parseAsync'' @ [CHR 0x27] @ '')''"

definition processJob_rest_on ::
  "runtime \<Rightarrow> collaborators \<Rightarrow> job_clock \<Rightarrow> string \<Rightarrow> GenerationJob \<Rightarrow> registry_value \<Rightarrow> GenerationOptions
     \<Rightarrow> CacheManager \<Rightarrow> world \<Rightarrow> job_outcome" where
  "processJob_rest_on rt col clk out_dir job1 v opts cm w =
     (case v of
        Template templateConfig \<Rightarrow> processJob_rest rt col clk out_dir job1 templateConfig opts cm w
      | Inherited \<Rightarrow> rejected job1 TypeError_parseAsync clk cm w)"

text \<open>
  \<open>generatePDF\<close>, up to its return. \<open>registry\<close> holds the own properties of
  \<open>TEMPLATE_REGISTRY\<close>, and the guard \<open>if (!templateConfig)\<close> tests the value of
  \<open>TEMPLATE_REGISTRY[options.templateId]\<close>, which is falsy only when it is \<open>undefined\<close>.
  \<open>jobId\<close> is the identifier that \<open>uuidv4()\<close> gives, \<open>now\<close> the clock at the creation of the
  job (one value for the three readings taken there). \<open>Inl\<close> is the rejection of the call
  with the message of the error thrown; \<open>Inr\<close> is the job handle returned, as the job stands
  at that moment.
\<close>

definition generatePDF ::
  "(string \<times> TemplateConfig) list \<Rightarrow> string \<Rightarrow> int \<Rightarrow> job_clock \<Rightarrow> GenerationOptions \<Rightarrow> generator
     \<Rightarrow> (string + GenerationJob) \<times> generator" where
  "generatePDF registry jobId now clk opts g =
     (case registry_lookup registry (opt_templateId opts) of
        None \<Rightarrow>
          (Inl (''Template '' @ [CHR 0x27] @ opt_templateId opts @ [CHR 0x27] @ '' not found''), g)
      | Some templateConfig \<Rightarrow>
          let job = \<lparr>job_id = jobId, templateId = opt_templateId opts, status = pending,
                      progress = 0, job_data = opt_data opts, job_options = opts,
                      result = None, error = None, createdAt = now, updatedAt = now,
                      job_expiresAt = Some (now + 24 * 60 * 60 * 1000)\<rparr>;
              job1 = processJob_start clk job
          in (Inr job1, g\<lparr>jobs := Map_set jobId job1 (jobs g)\<rparr>))"

text \<open>
  \<open>generatePDF\<close> together with the processing it starts, once that processing has settled:
  the job object in the ledger then holds what \<open>processJob\<close> and, after a rejection, the
  \<open>catch\<close> handler of \<open>generatePDF\<close> wrote to it.
\<close>

definition generatePDF_settled ::
  "runtime \<Rightarrow> collaborators \<Rightarrow> (string \<times> TemplateConfig) list \<Rightarrow> string \<Rightarrow> int \<Rightarrow> job_clock
     \<Rightarrow> GenerationOptions \<Rightarrow> generator \<Rightarrow> world
     \<Rightarrow> ((string + GenerationJob) \<times> generator \<times> world) option" where
  "generatePDF_settled rt col registry jobId now clk opts g w =
     (case generatePDF registry jobId now clk opts g of
        (Inl msg, g1) \<Rightarrow> Some (Inl msg, g1, w)
      | (Inr job1, g1) \<Rightarrow>
          (case registry_lookup registry (opt_templateId opts) of
             None \<Rightarrow> Some (Inr job1, g1, w)
           | Some templateConfig \<Rightarrow>
               (case processJob_rest_on rt col clk (outputDir g1) job1 templateConfig opts
                       (cacheManager g1) w of
                  None \<Rightarrow> None
                | Some (rejection, job2, cm2, w2) \<Rightarrow>
                    let job3 = (case rejection of
                                  None \<Rightarrow> job2
                                | Some msg \<Rightarrow> job2\<lparr>status := failed, error := Some msg,
                                                     updatedAt := t_catch clk\<rparr>)
                    in Some (Inr job1,
                             g1\<lparr>jobs := Map_set jobId job3 (jobs g1), cacheManager := cm2\<rparr>, w2))))"

text \<open>\<open>cancelJob\<close>, with \<open>now\<close> the clock reading for \<open>updatedAt\<close>.\<close>

definition cancelJob :: "string \<Rightarrow> int \<Rightarrow> generator \<Rightarrow> bool \<times> generator" where
  "cancelJob jobId now g =
     (case map_of (jobs g) jobId of
        Some job \<Rightarrow>
          if status job = pending then
            (True, g\<lparr>jobs := Map_set jobId
                        (job\<lparr>status := failed, error := Some ''Job cancelled'', updatedAt := now\<rparr>)
                        (jobs g)\<rparr>)
          else (False, g)
      | None \<Rightarrow> (False, g))"


text \<open>Concrete data for examples.\<close>

definition example_template :: TemplateConfig where
  "example_template =
     \<lparr>tc_id = ''invoice'', version = ''1.0.0'', engine = ''handlebars'',
      templatePath = ''templates/invoice/index.hbs'', partials = None, assets = None,
      schema = (\<lambda>d. case d of JObj ps \<Rightarrow> None | _ \<Rightarrow> Some ''root: Expected object'')\<rparr>"

definition example_schemas :: "string \<Rightarrow> json \<Rightarrow> string option" where
  "example_schemas tid = schema example_template"

definition example_options :: "string \<Rightarrow> GenerationOptions" where
  "example_options tid =
     \<lparr>opt_templateId = tid, opt_data = JObj [(''total'', JNum 10)], opt_locale = None,
      outputPath = None, returnBuffer = None, opt_other = []\<rparr>"

definition example_collaborators :: collaborators where
  "example_collaborators =
     \<lparr>loadAssets_result = (\<lambda>a. None), has_renderPartials = (\<lambda>e. True),
      renderPartials_result = (\<lambda>p. None), render_result = (\<lambda>t opts. Inr ''<html></html>''),
      renderHTMLToPDF_result = (\<lambda>h t opts. Inr ''%PDF''), getPageCount = (\<lambda>p. 1)\<rparr>"

definition example_clock :: job_clock where
  "example_clock =
     \<lparr>t_start = 1000, t_startTime = 1000, t_get = 1001, t_hit = 1002, t_set1 = 1003,
      t_set2 = 1003, t_end = 1004, t_done = 1004, t_fail = 1005, t_catch = 1005\<rparr>"

definition example_generator :: generator where
  "example_generator =
     \<lparr>jobs = [], cacheManager = CacheManager_new ''cache'' 104857600 86400000, outputDir = ''output''\<rparr>"

definition example_job :: "string \<Rightarrow> JobStatus \<Rightarrow> GenerationJob" where
  "example_job jid st =
     \<lparr>job_id = jid, templateId = ''invoice'', status = st, progress = 0,
      job_data = JNull, job_options = example_options ''invoice'', result = None, error = None,
      createdAt = 1, updatedAt = 1, job_expiresAt = None\<rparr>"

definition example_ledger :: generator where
  "example_ledger =
     example_generator\<lparr>jobs := [(''j1'', example_job ''j1'' pending),
                                  (''j2'', example_job ''j2'' processing),
                                  (''j3'', example_job ''j3'' completed),
                                  (''j4'', example_job ''j4'' failed)]\<rparr>"

definition example_cached :: json where
  "example_cached =
     JObj [(''metadata'', JObj [(''fileSize'', JNum 4), (''pageCount'', JNum 1),
                                 (''generationTime'', JNum 0), (''version'', JStr [])]),
           (''pdfPath'', JStr ''output/job-0.pdf'')]"

definition warm_cache :: "CacheManager \<times> world" where
  "warm_cache =
     the (set' (example_runtime [example_cached])
            (cacheKey_of (example_runtime [example_cached]) (example_options ''invoice''))
            example_cached None None 1 1 (CacheManager_new ''cache'' 104857600 86400000) empty_world)"

section \<open>Properties of the fingerprint\<close>

lemma insort_key_map_commute:
  assumes "\<And>x. g (h x) = f x"
  shows "insort_key g (h x) (map h ys) = map h (insort_key f x ys)"
  by (induction ys) (simp_all add: assms)

lemma sort_key_map_commute:
  assumes "\<And>x. g (h x) = f x"
  shows "sort_key g (map h xs) = map h (sort_key f xs)"
  by (induction xs) (simp_all add: insort_key_map_commute assms)

lemma filter_key_singleton:
  "distinct (map fst xs) \<Longrightarrow> k \<in> set xs \<Longrightarrow> filter (\<lambda>x. fst k = fst x) xs = [k]"
proof (induction xs)
  case Nil
  then show ?case by simp
next
  case (Cons a xs)
  show ?case
  proof (cases "k = a")
    case True
    have "fst a \<notin> fst ` set xs" using Cons.prems(1) by simp
    then have "\<forall>x\<in>set xs. fst a \<noteq> fst x" by (auto simp: image_iff)
    then have "filter (\<lambda>x. fst a = fst x) xs = []" by (simp add: filter_empty_conv)
    then show ?thesis using True by simp
  next
    case False
    then have "k \<in> set xs" using Cons.prems(2) by simp
    moreover have "fst a \<notin> fst ` set xs" using Cons.prems(1) by simp
    then have "fst k \<noteq> fst a" using \<open>k \<in> set xs\<close> by (auto simp: image_iff)
    ultimately show ?thesis using Cons by simp
  qed
qed

lemma sort_key_fst_unique:
  assumes "distinct (map fst ps)" "distinct (map fst qs)" "set ps = set qs"
  shows "sort_key fst ps = sort_key fst qs"
proof (rule properties_for_sort_key)
  have d1: "distinct ps" and d2: "distinct qs"
    using assms(1,2) by (auto simp: distinct_map)
  show "mset (sort_key fst qs) = mset ps"
    using d1 d2 assms(3) by (simp add: set_eq_iff_mset_eq_distinct)
  show "sorted (map fst (sort_key fst qs))" by simp
  fix k assume "k \<in> set (sort_key fst qs)"
  then have k: "k \<in> set qs" by simp
  have "filter (\<lambda>x. fst k = fst x) (sort_key fst qs) = [k]"
    by (rule filter_key_singleton) (use assms(2) k in \<open>simp_all add: distinct_map\<close>)
  moreover have "filter (\<lambda>x. fst k = fst x) ps = [k]"
    by (rule filter_key_singleton) (use assms k in simp_all)
  ultimately show "filter (\<lambda>x. fst k = fst x) (sort_key fst qs) = filter (\<lambda>x. fst k = fst x) ps"
    by simp
qed

lemma deep_equal_keys:
  assumes "distinct (map fst ps)" "distinct (map fst qs)" "length ps = length qs"
    and "\<forall>(k, v)\<in>set ps. \<exists>w. map_of qs k = Some w"
  shows "fst ` set ps = fst ` set qs"
proof -
  have sub: "fst ` set ps \<subseteq> fst ` set qs"
    using assms(4) by (force dest: map_of_SomeD)
  have "card (fst ` set ps) = length ps"
    using assms(1) by (metis distinct_card length_map set_map)
  moreover have "card (fst ` set qs) = length qs"
    using assms(2) by (metis distinct_card length_map set_map)
  ultimately show ?thesis using sub assms(3) by (simp add: card_subset_eq)
qed

lemma sortObjectKeys_deep_equal:
  "deep_equal x y \<Longrightarrow> wf_json x \<Longrightarrow> wf_json y \<Longrightarrow> sortObjectKeys x = sortObjectKeys y"
proof (induction x y rule: deep_equal.induct)
  case (5 xs ys)
  have "list_all2 (\<lambda>a b. sortObjectKeys a = sortObjectKeys b) xs ys"
    using 5 by (auto simp: list_all2_conv_all_nth list_all_iff)
  then have "map sortObjectKeys xs = map sortObjectKeys ys"
    by (induction rule: list_all2_induct) auto
  then show ?case by simp
next
  case (6 ps qs)
  let ?f = "\<lambda>(k, v). (k, sortObjectKeys v)"
  have dp: "distinct (map fst ps)" and dq: "distinct (map fst qs)"
    using 6 by simp_all
  have len: "length ps = length qs" using 6 by simp
  have each: "\<exists>w. map_of qs k = Some w \<and> sortObjectKeys v = sortObjectKeys w"
    if kv: "(k, v) \<in> set ps" for k v
  proof -
    obtain w where w: "map_of qs k = Some w" "deep_equal v w"
      using "6.prems"(1) kv by (auto simp: list_all_iff split: option.splits)
    have "wf_json v" using "6.prems"(2) kv by (auto simp: list_all_iff)
    moreover have "(k, w) \<in> set qs" using w(1) by (rule map_of_SomeD)
    then have "wf_json w" using "6.prems"(3) by (auto simp: list_all_iff)
    ultimately have "sortObjectKeys v = sortObjectKeys w"
      using "6.IH"[OF kv refl w(1)] w(2) by simp
    then show ?thesis using w(1) by blast
  qed
  have sub: "set (map ?f ps) \<subseteq> set (map ?f qs)"
  proof
    fix e assume "e \<in> set (map ?f ps)"
    then obtain k v where kv: "(k, v) \<in> set ps" "e = (k, sortObjectKeys v)" by auto
    then obtain w where w: "map_of qs k = Some w" "sortObjectKeys v = sortObjectKeys w"
      using each by blast
    have "(k, w) \<in> set qs" using w(1) by (rule map_of_SomeD)
    then have "?f (k, w) \<in> set (map ?f qs)" by (metis imageI set_map)
    then show "e \<in> set (map ?f qs)" using kv(2) w(2) by simp
  qed
  have fstf: "map fst (map ?f xs) = map fst xs" for xs
    by (simp add: case_prod_unfold comp_def)
  have d1: "distinct (map ?f ps)" using dp by (metis distinct_map fstf)
  have d2: "distinct (map ?f qs)" using dq by (metis distinct_map fstf)
  have "card (set (map ?f ps)) = card (set (map ?f qs))"
    using d1 d2 len by (metis distinct_card length_map)
  then have seteq: "set (map ?f ps) = set (map ?f qs)"
    using sub by (simp add: card_subset_eq)
  have s1: "sort_key fst (map ?f ps) = sort_key fst (map ?f qs)"
  proof (rule sort_key_fst_unique)
    show "distinct (map fst (map ?f ps))" unfolding fstf by (rule dp)
    show "distinct (map fst (map ?f qs))" unfolding fstf by (rule dq)
    show "set (map ?f ps) = set (map ?f qs)" by (rule seteq)
  qed
  have s2: "sort_key fst (map ?f xs) = map ?f (sort_key fst xs)" for xs
    by (rule sort_key_map_commute) auto
  have s3: "fold (\<lambda>(k, v). js_assign k (sortObjectKeys v)) xs [] =
            fold (\<lambda>(k, v). js_assign k v) (map ?f xs) []" for xs
    by (simp add: fold_map comp_def case_prod_unfold)
  have "map ?f (sort_key fst ps) = map ?f (sort_key fst qs)"
    using s1 by (simp only: s2)
  then show ?case by (simp only: sortObjectKeys.simps s3)
qed simp_all

text \<open>
  C1. For every template id and every pair of JSON-like values, \<open>generateCacheKey\<close> returns
  the same key on deep-equal inputs: the key does not depend on the order in which the keys
  of any object, at any depth of \<open>data\<close> or \<open>options\<close>, were inserted. This holds for every
  serialiser and every digest.
\<close>

theorem generateCacheKey_deterministic:
  assumes "wf_json d" and "wf_json d'" and "deep_equal d d'"
    and "wf_json opts" and "wf_json opts'" and "deep_equal opts opts'"
  shows "generateCacheKey rt tid d opts = generateCacheKey rt tid d' opts'"
proof -
  have "sortObjectKeys d = sortObjectKeys d'"
    using assms(1-3) by (simp add: sortObjectKeys_deep_equal)
  moreover have "sortObjectKeys opts = sortObjectKeys opts'"
    using assms(4-6) by (simp add: sortObjectKeys_deep_equal)
  ultimately show ?thesis by (simp add: generateCacheKey_def)
qed

theorem generateCacheKey_deterministic_witness:
  "wf_json (JObj [(''b'', JNum 1), (''a'', JObj [(''y'', JNum 2), (''x'', JArr [JNull])])])
   \<and> wf_json (JObj [(''a'', JObj [(''x'', JArr [JNull]), (''y'', JNum 2)]), (''b'', JNum 1)])
   \<and> deep_equal (JObj [(''b'', JNum 1), (''a'', JObj [(''y'', JNum 2), (''x'', JArr [JNull])])])
                 (JObj [(''a'', JObj [(''x'', JArr [JNull]), (''y'', JNum 2)]), (''b'', JNum 1)])
   \<and> wf_json (JObj [(''quality'', JStr ''high''), (''format'', JStr ''A4'')])
   \<and> wf_json (JObj [(''format'', JStr ''A4''), (''quality'', JStr ''high'')])
   \<and> deep_equal (JObj [(''quality'', JStr ''high''), (''format'', JStr ''A4'')])
                 (JObj [(''format'', JStr ''A4''), (''quality'', JStr ''high'')])
   \<and> generateCacheKey (example_runtime []) ''invoice''
         (JObj [(''b'', JNum 1), (''a'', JObj [(''y'', JNum 2), (''x'', JArr [JNull])])])
         (JObj [(''quality'', JStr ''high''), (''format'', JStr ''A4'')])
     = generateCacheKey (example_runtime []) ''invoice''
         (JObj [(''a'', JObj [(''x'', JArr [JNull]), (''y'', JNum 2)]), (''b'', JNum 1)])
         (JObj [(''format'', JStr ''A4''), (''quality'', JStr ''high'')])"
proof -
  let ?d = "JObj [(''b'', JNum 1), (''a'', JObj [(''y'', JNum 2), (''x'', JArr [JNull])])]"
  let ?d' = "JObj [(''a'', JObj [(''x'', JArr [JNull]), (''y'', JNum 2)]), (''b'', JNum 1)]"
  let ?p = "JObj [(''quality'', JStr ''high''), (''format'', JStr ''A4'')]"
  let ?p' = "JObj [(''format'', JStr ''A4''), (''quality'', JStr ''high'')]"
  have h1: "wf_json ?d" by simp
  have h2: "wf_json ?d'" by simp
  have h3: "deep_equal ?d ?d'" by simp
  have h4: "wf_json ?p" by simp
  have h5: "wf_json ?p'" by simp
  have h6: "deep_equal ?p ?p'" by simp
  show ?thesis
    using h1 h2 h3 h4 h5 h6 generateCacheKey_deterministic [OF h1 h2 h3 h4 h5 h6] by blast
qed

section \<open>Properties of the cache manager\<close>

declare ensureSpace_loop.simps [simp del]

lemma map_of_replace:
  "map_of (map (\<lambda>(k', v'). if k' = k then (k', v) else (k', v')) m) =
     (\<lambda>x. if x = k \<and> k \<in> fst ` set m then Some v else map_of m x)"
proof (induction m)
  case Nil
  show ?case by simp
next
  case (Cons a m)
  obtain k0 v0 where a: "a = (k0, v0)" by (cases a)
  show ?case unfolding a using Cons by (simp add: fun_eq_iff)
qed

lemma map_of_Map_set: "map_of (Map_set k v m) = (map_of m)(k \<mapsto> v)"
proof (cases "k \<in> fst ` set m")
  case True
  then show ?thesis
    by (simp add: Map_set_def map_of_replace fun_eq_iff)
next
  case False
  then have "map_of m k = None" by (simp add: map_of_eq_None_iff)
  then show ?thesis using False
    by (auto simp: Map_set_def fun_eq_iff map_add_def split: option.splits)
qed

lemma map_of_Map_delete: "map_of (Map_delete k m) = (map_of m)(k := None)"
  unfolding Map_delete_def by (induction m) (auto simp: fun_eq_iff)

lemma delete_fields:
  "delete rt k cm w = (b, cm1, w1) \<Longrightarrow>
     cacheDir cm1 = cacheDir cm \<and> maxSize cm1 = maxSize cm \<and> defaultTTL cm1 = defaultTTL cm"
  by (auto simp: delete_def Let_def split: option.splits)

lemma ensureSpace_loop_stop:
  "\<not> (c + n > maxSize cm \<and> cacheIndex cm \<noteq> []) \<Longrightarrow> ensureSpace_loop rt n c cm w = Some (cm, w)"
  by (subst ensureSpace_loop.simps) auto

lemma ensureSpace_loop_step:
  "c + n > maxSize cm \<Longrightarrow> cacheIndex cm \<noteq> [] \<Longrightarrow>
   ensureSpace_loop rt n c cm w =
     (case find_oldest (cacheIndex cm) of
        None \<Rightarrow> None
      | Some oldestKey \<Rightarrow>
          if oldestKey = [] then None
          else (case map_of (cacheIndex cm) oldestKey of
                  None \<Rightarrow> None
                | Some removedEntry \<Rightarrow>
                    ensureSpace_loop rt n (c - size_bytes removedEntry)
                      (fst (snd (delete rt oldestKey cm w))) (snd (snd (delete rt oldestKey cm w)))))"
  by (subst ensureSpace_loop.simps) (auto split: option.splits prod.splits)

lemma ensureSpace_loop_fields:
  "ensureSpace_loop rt n c cm w = Some (cm1, w1) \<Longrightarrow>
     cacheDir cm1 = cacheDir cm \<and> maxSize cm1 = maxSize cm \<and> defaultTTL cm1 = defaultTTL cm"
proof (induction rt n c cm w rule: ensureSpace_loop.induct)
  case (1 rt n c cm w)
  show ?case
  proof (cases "c + n > maxSize cm \<and> cacheIndex cm \<noteq> []")
    case False
    then show ?thesis using "1.prems" by (simp add: ensureSpace_loop_stop)
  next
    case True
    from "1.prems" True obtain k r where
      k: "find_oldest (cacheIndex cm) = Some k" "k \<noteq> []"
      and r: "map_of (cacheIndex cm) k = Some r"
      and rec: "ensureSpace_loop rt n (c - size_bytes r)
                  (fst (snd (delete rt k cm w))) (snd (snd (delete rt k cm w))) = Some (cm1, w1)"
      by (auto simp: ensureSpace_loop_step split: option.splits if_splits)
    obtain b cm' w' where d: "delete rt k cm w = (b, cm', w')" by (cases "delete rt k cm w") auto
    have T: "maxSize cm < c + n \<and> 0 < length (cacheIndex cm)" using True by simp
    have "cacheDir cm1 = cacheDir cm' \<and> maxSize cm1 = maxSize cm' \<and> defaultTTL cm1 = defaultTTL cm'"
      using "1.IH"[OF T k(1) k(2) r d[symmetric] refl] rec d by simp
    then show ?thesis using delete_fields[OF d] by simp
  qed
qed

lemma ensureSpace_fields:
  "ensureSpace rt n cm w = Some (cm1, w1) \<Longrightarrow>
     cacheDir cm1 = cacheDir cm \<and> maxSize cm1 = maxSize cm \<and> defaultTTL cm1 = defaultTTL cm"
  unfolding ensureSpace_def by (rule ensureSpace_loop_fields)

text \<open>
  C10. For a key of the index, \<open>delete\<close> returns true, takes the key out of the index (every
  other key stays) and writes the new index to the index file, whatever \<open>fs.unlink\<close> did:
  the statement holds in every world, also where the payload file is missing or may not be
  removed. For a key that is not in the index, \<open>delete\<close> returns false and changes neither
  the index nor the world (no call leaves the process).
\<close>

theorem delete_returns:
  "(map_of (cacheIndex cm) k \<noteq> None \<longrightarrow>
      (case delete rt k cm w of
         (b, cm', w') \<Rightarrow>
           b = True
           \<and> cm' = cm\<lparr>cacheIndex := Map_delete k (cacheIndex cm)\<rparr>
           \<and> map_of (cacheIndex cm') k = None
           \<and> (\<forall>k'. k' \<noteq> k \<longrightarrow> map_of (cacheIndex cm') k' = map_of (cacheIndex cm) k')
           \<and> files w' (indexPath rt cm) = Some (JSON_stringify_pretty rt (index_json (cacheIndex cm')))
           \<and> trace w' = trace w @ [FsUnlink (getCacheFilePath rt cm k),
                                     FsWriteFile (indexPath rt cm)
                                       (JSON_stringify_pretty rt (index_json (cacheIndex cm')))]))
   \<and> (map_of (cacheIndex cm) k = None \<longrightarrow> delete rt k cm w = (False, cm, w))"
  by (auto simp: delete_def Let_def saveCacheIndex_def fs_writeFile_def fs_unlink_def indexPath_def
                 map_of_Map_delete split: option.splits)

theorem delete_returns_witness:
  "map_of (cacheIndex ((CacheManager_new ''cache'' 100 1000)
             \<lparr>cacheIndex := [(''a'', example_entry ''a'' 1 1001 4)]\<rparr>)) ''a'' \<noteq> None
   \<and> fst (fs_unlink ''cache/a.json''
             (empty_world\<lparr>files := [''cache/a.json'' \<mapsto> ''null''], unlink_denied := {''cache/a.json''}\<rparr>))
       = False
   \<and> fst (delete (example_runtime []) ''a''
             ((CacheManager_new ''cache'' 100 1000)\<lparr>cacheIndex := [(''a'', example_entry ''a'' 1 1001 4)]\<rparr>)
             (empty_world\<lparr>files := [''cache/a.json'' \<mapsto> ''null''], unlink_denied := {''cache/a.json''}\<rparr>))
       = True
   \<and> cacheIndex (fst (snd (delete (example_runtime []) ''a''
             ((CacheManager_new ''cache'' 100 1000)\<lparr>cacheIndex := [(''a'', example_entry ''a'' 1 1001 4)]\<rparr>)
             (empty_world\<lparr>files := [''cache/a.json'' \<mapsto> ''null''], unlink_denied := {''cache/a.json''}\<rparr>))))
       = []
   \<and> files (snd (snd (delete (example_runtime []) ''a''
             ((CacheManager_new ''cache'' 100 1000)\<lparr>cacheIndex := [(''a'', example_entry ''a'' 1 1001 4)]\<rparr>)
             (empty_world\<lparr>files := [''cache/a.json'' \<mapsto> ''null''], unlink_denied := {''cache/a.json''}\<rparr>))))
         ''cache/index.json'' = Some ''{}''
   \<and> map_of (cacheIndex (CacheManager_new ''cache'' 100 1000)) ''a'' = None
   \<and> delete (example_runtime []) ''a'' (CacheManager_new ''cache'' 100 1000) empty_world
       = (False, CacheManager_new ''cache'' 100 1000, empty_world)"
  using delete_returns [of "(CacheManager_new ''cache'' 100 1000)
             \<lparr>cacheIndex := [(''a'', example_entry ''a'' 1 1001 4)]\<rparr>" "''a''" "example_runtime []"
             "empty_world\<lparr>files := [''cache/a.json'' \<mapsto> ''null''], unlink_denied := {''cache/a.json''}\<rparr>"]
        delete_returns [of "CacheManager_new ''cache'' 100 1000" "''a''" "example_runtime []" empty_world]
  by (simp add: CacheManager_new_def example_entry_def empty_world_def fs_unlink_def Map_delete_def
        example_runtime_def indexPath_def index_json_def Object_fromEntries_def split: prod.splits)

text \<open>
  C9, as the code has it. Every rewrite of the index is one \<open>fs.writeFile\<close> on the index path
  itself, which replaces the text of the file in place: \<open>saveCacheIndex\<close> writes no other
  file and nothing is renamed.
\<close>

theorem saveCacheIndex_in_place:
  "trace (saveCacheIndex rt cm w) =
     trace w @ [FsWriteFile (indexPath rt cm) (JSON_stringify_pretty rt (index_json (cacheIndex cm)))]
   \<and> files (saveCacheIndex rt cm w) =
     (files w)(indexPath rt cm \<mapsto> JSON_stringify_pretty rt (index_json (cacheIndex cm)))"
  by (simp add: saveCacheIndex_def fs_writeFile_def)

text \<open>
  C9, as the claim states it, fails: saving the index of an empty store in the directory
  \<open>cache\<close>, over an older index file, makes a single call, and that call writes to
  \<open>cache/index.json\<close> itself. No new file is written beside it and no file is replaced by
  another.
\<close>

theorem saveCacheIndex_no_temporary_file:
  "trace (saveCacheIndex (example_runtime []) (CacheManager_new ''cache'' 100 1000)
            (empty_world\<lparr>files := [''cache/index.json'' \<mapsto> ''{old}'']\<rparr>))
     = [FsWriteFile ''cache/index.json'' ''{}'']"
  by (simp add: saveCacheIndex_def fs_writeFile_def CacheManager_new_def empty_world_def
        example_runtime_def indexPath_def index_json_def Object_fromEntries_def)

text \<open>
  C4, as the code has it. After a \<open>set\<close> that returned, on a key whose payload file is not
  the index file and with a value that \<open>JSON.parse\<close> reads back from its serialisation, a
  \<open>get\<close> of the key on the resulting store at time \<open>now\<close> returns the stored value whenever
  \<open>now\<close> is at most \<open>expiresAt\<close> (the second clock reading of \<open>set\<close> plus the time to
  live), hence whenever \<open>now < createdAt + t\<close>; it returns null whenever \<open>now\<close> is greater
  than \<open>expiresAt\<close>, and then the key has left the index.
\<close>

theorem get_after_set:
  assumes ret: "set' rt k v ttl md now1 now2 cm w \<noteq> None"
    and path: "getCacheFilePath rt cm k \<noteq> indexPath rt cm"
    and json: "JSON_parse rt (JSON_stringify rt v) = Some v"
  shows "case set_then_get rt k v ttl md now1 now2 now cm w of
           None \<Rightarrow> False
         | Some (r, cm2, w2) \<Rightarrow>
             (now \<le> now2 + (case ttl of None \<Rightarrow> defaultTTL cm | Some t \<Rightarrow> t) \<longrightarrow> r = v)
           \<and> (now1 \<le> now2 \<and> now < now1 + (case ttl of None \<Rightarrow> defaultTTL cm | Some t \<Rightarrow> t) \<longrightarrow> r = v)
           \<and> (now > now2 + (case ttl of None \<Rightarrow> defaultTTL cm | Some t \<Rightarrow> t) \<longrightarrow>
                 r = JNull \<and> map_of (cacheIndex cm2) k = None)"
proof -
  let ?ser = "JSON_stringify rt v"
  let ?t = "case ttl of None \<Rightarrow> defaultTTL cm | Some t \<Rightarrow> t"
  obtain cm1 w1 where es: "ensureSpace rt (int (length ?ser)) cm w = Some (cm1, w1)"
    using ret by (auto simp: set'_def Let_def split: option.splits)
  have f: "cacheDir cm1 = cacheDir cm" "defaultTTL cm1 = defaultTTL cm"
    using ensureSpace_fields[OF es] by simp_all
  define entry where "entry = \<lparr>key = k, data = v, timestamp = now1, expiresAt = now2 + ?t,
                                 size_bytes = int (length ?ser), metadata = md\<rparr>"
  define cm2 where "cm2 = cm1\<lparr>cacheIndex := Map_set k entry (cacheIndex cm1)\<rparr>"
  define w3 where "w3 = saveCacheIndex rt cm2 (fs_writeFile (getCacheFilePath rt cm1 k) ?ser w1)"
  have s: "set' rt k v ttl md now1 now2 cm w = Some (cm2, w3)"
    using es f by (simp add: set'_def Let_def entry_def cm2_def w3_def)
  have look: "map_of (cacheIndex cm2) k = Some entry"
    by (simp add: cm2_def map_of_Map_set)
  have p1: "getCacheFilePath rt cm2 k = getCacheFilePath rt cm k"
    and p2: "indexPath rt cm2 = indexPath rt cm" and p3: "getCacheFilePath rt cm1 k = getCacheFilePath rt cm k"
    using f by (simp_all add: getCacheFilePath_def indexPath_def cm2_def)
  have fl: "files w3 (getCacheFilePath rt cm k) = Some ?ser"
    using path by (simp add: w3_def saveCacheIndex_def fs_writeFile_def p2 p3)
  have ex: "expiresAt entry = now2 + ?t" by (simp add: entry_def)
  have fresh: "fst (get rt k now cm2 w3) = v" if "now \<le> now2 + ?t"
    using that look fl json ex by (simp add: get_def fs_readFile_def p1)
  have stale: "fst (get rt k now cm2 w3) = JNull \<and> map_of (cacheIndex (fst (snd (get rt k now cm2 w3)))) k = None"
    if "now > now2 + ?t"
    using that look ex
    by (simp add: get_def delete_def Let_def map_of_Map_delete split: prod.splits)
  show ?thesis
    using s fresh stale by (auto simp: set_then_get_def split: prod.splits)
qed

theorem get_after_set_witness:
  "set' (example_runtime [JStr ''pdf'']) ''k'' (JStr ''pdf'') (Some 10) None 1000 1000
      (CacheManager_new ''cache'' 100 86400000) empty_world \<noteq> None
   \<and> getCacheFilePath (example_runtime [JStr ''pdf'']) (CacheManager_new ''cache'' 100 86400000) ''k''
       \<noteq> indexPath (example_runtime [JStr ''pdf'']) (CacheManager_new ''cache'' 100 86400000)
   \<and> JSON_parse (example_runtime [JStr ''pdf''])
        (JSON_stringify (example_runtime [JStr ''pdf'']) (JStr ''pdf'')) = Some (JStr ''pdf'')
   \<and> map_option fst (set_then_get (example_runtime [JStr ''pdf'']) ''k'' (JStr ''pdf'') (Some 10) None
        1000 1000 1009 (CacheManager_new ''cache'' 100 86400000) empty_world) = Some (JStr ''pdf'')
   \<and> map_option fst (set_then_get (example_runtime [JStr ''pdf'']) ''k'' (JStr ''pdf'') (Some 10) None
        1000 1000 1011 (CacheManager_new ''cache'' 100 86400000) empty_world) = Some JNull"
proof -
  let ?rt = "example_runtime [JStr ''pdf'']"
  let ?cm = "CacheManager_new ''cache'' 100 86400000"
  have h1: "set' ?rt ''k'' (JStr ''pdf'') (Some 10) None 1000 1000 ?cm empty_world \<noteq> None"
    by code_simp
  have h2: "getCacheFilePath ?rt ?cm ''k'' \<noteq> indexPath ?rt ?cm"
    by code_simp
  have h3: "JSON_parse ?rt (JSON_stringify ?rt (JStr ''pdf'')) = Some (JStr ''pdf'')"
    by code_simp
  show ?thesis
    using h1 h2 h3 get_after_set [OF h1 h2 h3, of 1009] get_after_set [OF h1 h2 h3, of 1011]
    by (auto split: option.splits)
qed

text \<open>
  C4, as the claim states it, fails at the instant of expiry: an entry set at time 1000
  with a time to live of 10 is still returned by \<open>get\<close> at time 1010, where the claim says
  it is absent; the test of \<open>get\<close> is \<open>Date.now() > entry.expiresAt\<close>.
\<close>

theorem get_at_expiry_instant:
  "map_option fst (set_then_get (example_runtime [JStr ''pdf'']) ''k'' (JStr ''pdf'') (Some 10) None
        1000 1000 1010 (CacheManager_new ''cache'' 100 86400000) empty_world) = Some (JStr ''pdf'')"
  by code_simp

text \<open>
  C5 on the key \<open>index\<close>: the payload file of that key is the index file. \<open>set\<close> writes the
  payload to \<open>cache/index.json\<close> and then saves the index over it, so the \<open>get\<close> that
  follows at once returns the parsed index, not the value that was stored.
\<close>

theorem set_then_get_index_key:
  "map_option fst (set_then_get
       (example_runtime [JStr ''pdf'',
          JObj [(''index'', JObj [(''key'', JStr ''index''), (''data'', JStr ''pdf''),
                  (''timestamp'', JNum 1000), (''expiresAt'', JNum 86401000), (''size'', JNum 5)])]])
       ''index'' (JStr ''pdf'') None None 1000 1000 1000
       (CacheManager_new ''cache'' 104857600 86400000) empty_world)
   = Some (JObj [(''index'', JObj [(''key'', JStr ''index''), (''data'', JStr ''pdf''),
                  (''timestamp'', JNum 1000), (''expiresAt'', JNum 86401000), (''size'', JNum 5)])])"
  by code_simp

lemma hd_insort_key:
  "hd (insort_key f x ys) = (if ys \<noteq> [] \<and> f (hd ys) < f x then hd ys else x)"
  by (cases ys) auto

lemma sort_key_Nil_iff: "sort_key f xs = [] \<longleftrightarrow> xs = []"
  by (metis length_0_conv length_sort)

lemma fold_oldest_step:
  "fold oldest_step xs (a, t) =
     (if xs \<noteq> [] \<and> timestamp (snd (hd (sort_key (\<lambda>(k, e). timestamp e) xs))) < t
      then (Some (fst (hd (sort_key (\<lambda>(k, e). timestamp e) xs))),
            timestamp (snd (hd (sort_key (\<lambda>(k, e). timestamp e) xs))))
      else (a, t))"
proof (induction xs arbitrary: a t)
  case Nil
  show ?case by simp
next
  case (Cons x xs)
  obtain k e where x: "x = (k, e)" by (cases x)
  let ?f = "\<lambda>(k, e). timestamp e"
  let ?h = "hd (sort_key ?f xs)"
  have f: "?f y = timestamp (snd y)" for y :: "string \<times> CacheEntry" by (cases y) simp
  have ne: "sort_key ?f xs \<noteq> [] \<longleftrightarrow> xs \<noteq> []" by (simp add: sort_key_Nil_iff)
  have hd: "hd (sort_key ?f (x # xs)) =
              (if xs \<noteq> [] \<and> timestamp (snd ?h) < timestamp e then ?h else x)"
    using ne by (simp add: hd_insort_key f x)
  show ?case
  proof (cases "timestamp e < t")
    case True
    then have "fold oldest_step (x # xs) (a, t) = fold oldest_step xs (Some k, timestamp e)"
      by (simp add: oldest_step_def x)
    then show ?thesis using True unfolding Cons.IH hd by (auto simp: x)
  next
    case False
    then have "fold oldest_step (x # xs) (a, t) = fold oldest_step xs (a, t)"
      by (simp add: oldest_step_def x)
    then show ?thesis using False unfolding Cons.IH hd by (auto simp: x)
  qed
qed

lemma find_oldest_hd:
  assumes "idx \<noteq> []" and "\<forall>(k, e)\<in>set idx. timestamp e < MAX_SAFE_INTEGER"
  shows "find_oldest idx = Some (fst (hd (sort_key (\<lambda>(k, e). timestamp e) idx)))"
proof -
  let ?s = "sort_key (\<lambda>(k, e). timestamp e) idx"
  have "?s \<noteq> []" using assms(1) by (simp add: sort_key_Nil_iff)
  then have "hd ?s \<in> set idx" by (metis hd_in_set set_sort)
  then have "timestamp (snd (hd ?s)) < MAX_SAFE_INTEGER" using assms(2) by (auto simp: case_prod_unfold)
  then show ?thesis using assms(1) by (simp add: find_oldest_def fold_oldest_step)
qed

lemma remove1_insort_key_other:
  assumes "sorted (map f zs)" and "x \<noteq> y"
  shows "remove1 x (insort_key f y zs) = insort_key f y (remove1 x zs)"
  using assms
proof (induction zs)
  case Nil
  then show ?case by simp
next
  case (Cons z zs)
  show ?case
  proof (cases "x = z")
    case True
    show ?thesis
    proof (cases "f y \<le> f z")
      case le: True
      have "\<forall>u\<in>set zs. f y \<le> f u" using Cons.prems(1) le by auto
      then have "insort_key f y zs = y # zs" by (rule insort_is_Cons)
      then show ?thesis using True le Cons.prems(2) by simp
    next
      case False
      then show ?thesis using True by simp
    qed
  next
    case False
    then show ?thesis using Cons by auto
  qed
qed

lemma sort_key_remove1:
  "sort_key f (remove1 x xs) = remove1 x (sort_key f xs)"
proof (induction xs)
  case Nil
  show ?case by simp
next
  case (Cons y ys)
  show ?case
  proof (cases "x = y")
    case True
    then show ?thesis by simp
  next
    case False
    then show ?thesis using Cons by (simp add: remove1_insort_key_other)
  qed
qed

lemma Map_delete_remove1:
  assumes "distinct (map fst m)" and "(k, v) \<in> set m"
  shows "Map_delete k m = remove1 (k, v) m"
  using assms
proof (induction m)
  case Nil
  then show ?case by simp
next
  case (Cons a m)
  obtain k' v' where a: "a = (k', v')" by (cases a)
  show ?case
  proof (cases "k' = k")
    case True
    then have v: "v' = v" using Cons.prems a by (auto simp: image_iff)
    have "k \<notin> fst ` set m" using Cons.prems(1) a True by simp
    then have "filter (\<lambda>(k', v'). k' \<noteq> k) m = m"
      by (auto simp: filter_id_conv image_iff)
    then show ?thesis using True v a by (simp add: Map_delete_def)
  next
    case False
    then have "(k, v) \<in> set m" using Cons.prems(2) a by auto
    then show ?thesis using Cons False a by (auto simp: Map_delete_def)
  qed
qed

lemma sort_key_Map_delete_hd:
  assumes "distinct (map fst idx)" and "idx \<noteq> []"
  shows "sort_key f (Map_delete (fst (hd (sort_key f idx))) idx) = tl (sort_key f idx)"
proof -
  let ?s = "sort_key f idx"
  have ne: "?s \<noteq> []" using assms(2) by (simp add: sort_key_Nil_iff)
  then have mem: "hd ?s \<in> set idx" by (metis hd_in_set set_sort)
  have "Map_delete (fst (hd ?s)) idx = remove1 (fst (hd ?s), snd (hd ?s)) idx"
    by (rule Map_delete_remove1[OF assms(1)]) (use mem in simp)
  then have "Map_delete (fst (hd ?s)) idx = remove1 (hd ?s) idx" by simp
  then have "sort_key f (Map_delete (fst (hd ?s)) idx) = remove1 (hd ?s) ?s"
    by (simp add: sort_key_remove1)
  also have "\<dots> = tl ?s" using ne by (cases ?s) auto
  finally show ?thesis .
qed


lemma current_size_mset:
  "mset xs = mset ys \<Longrightarrow> current_size xs = current_size ys"
proof -
  assume "mset xs = mset ys"
  then have "mset (map (\<lambda>(k, e). size_bytes e) xs) = mset (map (\<lambda>(k, e). size_bytes e) ys)"
    by (metis mset_map)
  then show ?thesis unfolding current_size_def by (metis sum_mset_sum_list)
qed

lemma current_size_by_timestamp: "current_size (by_timestamp idx) = current_size idx"
  by (rule current_size_mset) (simp add: by_timestamp_def)

lemma current_size_remove1:
  "x \<in> set xs \<Longrightarrow> current_size (remove1 x xs) = current_size xs - size_bytes (snd x)"
  by (induction xs) (auto simp: current_size_def case_prod_unfold)

lemma map_of_distinct_mem:
  "distinct (map fst m) \<Longrightarrow> (k, v) \<in> set m \<Longrightarrow> map_of m k = Some v"
  by simp

lemma distinct_Map_delete: "distinct (map fst m) \<Longrightarrow> distinct (map fst (Map_delete k m))"
  by (simp add: Map_delete_def distinct_map_filter)

lemma set_Map_delete: "set (Map_delete k m) \<subseteq> set m"
  by (auto simp: Map_delete_def)

lemma delete_present:
  assumes "map_of (cacheIndex cm) k = Some e"
  shows "fst (snd (delete rt k cm w)) = cm\<lparr>cacheIndex := Map_delete k (cacheIndex cm)\<rparr>"
    and "unlinked (trace (snd (snd (delete rt k cm w)))) = unlinked (trace w) @ [getCacheFilePath rt cm k]"
  using assms
  by (simp_all add: delete_def Let_def saveCacheIndex_def fs_writeFile_def fs_unlink_def unlinked_def)

lemma filter_notin_Cons:
  "distinct xs \<Longrightarrow> filter (\<lambda>x. x \<notin> set (h # E)) xs = filter (\<lambda>x. x \<notin> set E) (remove1 h xs)"
  by (induction xs) (auto simp: remove1_idem)

lemma ensureSpace_loop_spec:
  assumes "distinct (map fst (cacheIndex cm))"
    and "\<forall>(k, e)\<in>set (cacheIndex cm). k \<noteq> [] \<and> timestamp e < MAX_SAFE_INTEGER"
  shows "\<exists>w1. ensureSpace_loop rt n (current_size (cacheIndex cm)) cm w =
           Some (cm\<lparr>cacheIndex :=
                   filter (\<lambda>x. x \<notin> set (spec_evictions (maxSize cm) n (by_timestamp (cacheIndex cm))))
                     (cacheIndex cm)\<rparr>, w1)
         \<and> unlinked (trace w1) = unlinked (trace w) @
             map (\<lambda>(k, e). getCacheFilePath rt cm k)
               (spec_evictions (maxSize cm) n (by_timestamp (cacheIndex cm)))"
  using assms
proof (induction "length (cacheIndex cm)" arbitrary: cm w rule: less_induct)
  case less
  let ?idx = "cacheIndex cm"
  let ?s = "by_timestamp ?idx"
  let ?c = "current_size ?idx"
  show ?case
  proof (cases "?c + n > maxSize cm \<and> ?idx \<noteq> []")
    case False
    have "spec_evictions (maxSize cm) n ?s = []"
    proof (cases ?s)
      case Nil
      then show ?thesis by simp
    next
      case (Cons h t)
      then have "?idx \<noteq> []" by (auto simp: by_timestamp_def)
      then have "\<not> current_size (h # t) + n > maxSize cm"
        using False current_size_by_timestamp[of ?idx] Cons by simp
      then show ?thesis using Cons by simp
    qed
    then show ?thesis using False by (simp add: ensureSpace_loop_stop)
  next
    case True
    then have ne: "?idx \<noteq> []" and over: "?c + n > maxSize cm" by simp_all
    obtain h t where s: "?s = h # t"
      using ne by (cases ?s) (auto simp: by_timestamp_def sort_key_Nil_iff)
    have hmem: "h \<in> set ?idx"
      by (metis by_timestamp_def list.set_intros(1) s set_sort)
    have hd: "hd (sort_key (\<lambda>(k, e). timestamp e) ?idx) = h"
      using s by (simp add: by_timestamp_def)
    have fo: "find_oldest ?idx = Some (fst h)"
      using find_oldest_hd[OF ne] less.prems(2) hd by (auto simp: case_prod_unfold)
    have kne: "fst h \<noteq> []" using less.prems(2) hmem by (auto simp: case_prod_unfold)
    have look: "map_of ?idx (fst h) = Some (snd h)"
      using less.prems(1) hmem by simp
    define cm' where "cm' = cm\<lparr>cacheIndex := Map_delete (fst h) ?idx\<rparr>"
    define w' where "w' = snd (snd (delete rt (fst h) cm w))"
    have d1: "fst (snd (delete rt (fst h) cm w)) = cm'"
      and d2: "unlinked (trace w') = unlinked (trace w) @ [getCacheFilePath rt cm (fst h)]"
      using delete_present[OF look] by (simp_all add: cm'_def w'_def)
    have del: "Map_delete (fst h) ?idx = remove1 h ?idx"
      using Map_delete_remove1[OF less.prems(1), of "fst h" "snd h"] hmem by simp
    have step: "ensureSpace_loop rt n ?c cm w
                  = ensureSpace_loop rt n (?c - size_bytes (snd h)) cm' w'"
      using over ne fo kne look d1 by (simp add: ensureSpace_loop_step w'_def)
    have c': "?c - size_bytes (snd h) = current_size (cacheIndex cm')"
      using current_size_remove1[OF hmem] del by (simp add: cm'_def)
    have "0 < length ?idx" using ne by simp
    then have len: "length (cacheIndex cm') < length ?idx"
      using hmem del by (simp add: cm'_def length_remove1)
    have dist': "distinct (map fst (cacheIndex cm'))"
      using less.prems(1) by (simp add: cm'_def distinct_Map_delete)
    have wf': "\<forall>(k, e)\<in>set (cacheIndex cm'). k \<noteq> [] \<and> timestamp e < MAX_SAFE_INTEGER"
      using less.prems(2) set_Map_delete[of "fst h" ?idx] by (auto simp: cm'_def)
    have s': "by_timestamp (cacheIndex cm') = t"
      using sort_key_Map_delete_hd[OF less.prems(1) ne, of "\<lambda>(k, e). timestamp e"] hd s
      by (simp add: cm'_def by_timestamp_def)
    obtain w1 where
      r1: "ensureSpace_loop rt n (current_size (cacheIndex cm')) cm' w' =
             Some (cm'\<lparr>cacheIndex := filter (\<lambda>x. x \<notin> set (spec_evictions (maxSize cm') n t))
                                        (cacheIndex cm')\<rparr>, w1)"
      and r2: "unlinked (trace w1) = unlinked (trace w') @
                 map (\<lambda>(k, e). getCacheFilePath rt cm' k) (spec_evictions (maxSize cm') n t)"
      using less.hyps[OF len dist' wf', of w'] unfolding s' by blast
    have ev: "spec_evictions (maxSize cm) n ?s = h # spec_evictions (maxSize cm) n t"
      using over current_size_by_timestamp[of ?idx] s by simp
    have m': "maxSize cm' = maxSize cm" and p': "getCacheFilePath rt cm' = getCacheFilePath rt cm"
      by (simp_all add: cm'_def getCacheFilePath_def fun_eq_iff)
    have "distinct ?idx" using less.prems(1) by (simp add: distinct_map)
    then have flt: "filter (\<lambda>x. x \<notin> set (h # E)) ?idx = filter (\<lambda>x. x \<notin> set E) (remove1 h ?idx)" for E
      by (rule filter_notin_Cons)
    have "cm'\<lparr>cacheIndex := filter (\<lambda>x. x \<notin> set (spec_evictions (maxSize cm) n t)) (cacheIndex cm')\<rparr>
          = cm\<lparr>cacheIndex := filter (\<lambda>x. x \<notin> set (spec_evictions (maxSize cm) n ?s)) ?idx\<rparr>"
      unfolding ev flt using del by (simp add: cm'_def)
    moreover have "unlinked (trace w1) = unlinked (trace w) @
             map (\<lambda>(k, e). getCacheFilePath rt cm k) (spec_evictions (maxSize cm) n ?s)"
      unfolding ev using r2 d2 by (simp add: m' p' case_prod_unfold)
    ultimately show ?thesis using step r1 c' m' by simp
  qed
qed


lemma ensureSpace_spec:
  assumes "distinct (map fst (cacheIndex cm))"
    and "\<forall>(k, e)\<in>set (cacheIndex cm). k \<noteq> [] \<and> timestamp e < MAX_SAFE_INTEGER"
  shows "\<exists>w1. ensureSpace rt n cm w =
           Some (cm\<lparr>cacheIndex :=
                   filter (\<lambda>x. x \<notin> set (spec_evictions (maxSize cm) n (by_timestamp (cacheIndex cm))))
                     (cacheIndex cm)\<rparr>, w1)
         \<and> unlinked (trace w1) = unlinked (trace w) @
             map (\<lambda>(k, e). getCacheFilePath rt cm k)
               (spec_evictions (maxSize cm) n (by_timestamp (cacheIndex cm)))"
  unfolding ensureSpace_def using assms by (rule ensureSpace_loop_spec)

lemma spec_evictions_prefix: "\<exists>m. spec_evictions cap n s = take m s"
proof (induction s)
  case Nil
  show ?case by simp
next
  case (Cons x xs)
  then obtain m where m: "spec_evictions cap n xs = take m xs" by blast
  show ?case
  proof (cases "current_size (x # xs) + n > cap")
    case True
    then have "spec_evictions cap n (x # xs) = take (Suc m) (x # xs)" using m by simp
    then show ?thesis by blast
  next
    case False
    then have "spec_evictions cap n (x # xs) = take 0 (x # xs)" by simp
    then show ?thesis by blast
  qed
qed

lemma spec_evictions_stop:
  "distinct s \<Longrightarrow>
     current_size (filter (\<lambda>x. x \<notin> set (spec_evictions cap n s)) s) + n \<le> cap
     \<or> filter (\<lambda>x. x \<notin> set (spec_evictions cap n s)) s = []"
proof (induction s)
  case Nil
  show ?case by simp
next
  case (Cons x xs)
  show ?case
  proof (cases "current_size (x # xs) + n > cap")
    case True
    have "filter (\<lambda>y. y \<notin> set (x # spec_evictions cap n xs)) (x # xs)
            = filter (\<lambda>y. y \<notin> set (spec_evictions cap n xs)) xs"
      using Cons.prems by (auto intro: filter_cong)
    then show ?thesis using True Cons by simp
  next
    case False
    then show ?thesis by simp
  qed
qed

lemma sorted_by_timestamp: "sorted (map (\<lambda>(k, e). timestamp e) (by_timestamp idx))"
  by (simp add: by_timestamp_def)


text \<open>
  C3, as the code has it. On a store whose keys are not empty and whose timestamps are
  below \<open>Number.MAX_SAFE_INTEGER\<close>, a \<open>set\<close> call returns, and the payload files it
  unlinks, in order, are those of \<open>spec_evictions\<close>: the entries of the index in the order
  of their timestamps, oldest first (the earlier insertion first among equal timestamps),
  expired or not, one at a time for as long as what is left plus the new entry exceeds
  \<open>maxSize\<close>. So when room must be made the entry removed first has the smallest timestamp
  of the whole index, the evicted timestamps never decrease, every evicted entry is at
  least as old as every entry that stays, and eviction ends when the rest plus the new
  entry fits or the index is empty.
\<close>

theorem set_evicts_oldest_first:
  assumes dist: "distinct (map fst (cacheIndex cm))"
    and wf: "\<forall>(k, e)\<in>set (cacheIndex cm). k \<noteq> [] \<and> timestamp e < MAX_SAFE_INTEGER"
    and n: "n = int (length (JSON_stringify rt v))"
    and ev: "ev = spec_evictions (maxSize cm) n (by_timestamp (cacheIndex cm))"
  shows "\<exists>cm' w'.
           set' rt k v ttl md now1 now2 cm w = Some (cm', w')
         \<and> unlinked (trace w') = unlinked (trace w) @ map (\<lambda>(k, e). getCacheFilePath rt cm k) ev
         \<and> cacheIndex cm' =
             Map_set k \<lparr>key = k, data = v, timestamp = now1,
                        expiresAt = now2 + (case ttl of None \<Rightarrow> defaultTTL cm | Some t \<Rightarrow> t),
                        size_bytes = n, metadata = md\<rparr>
               (filter (\<lambda>x. x \<notin> set ev) (cacheIndex cm))
         \<and> (current_size (cacheIndex cm) + n > maxSize cm \<and> cacheIndex cm \<noteq> [] \<longrightarrow>
               ev \<noteq> [] \<and> (\<forall>x\<in>set (cacheIndex cm). timestamp (snd (hd ev)) \<le> timestamp (snd x)))
         \<and> sorted (map (\<lambda>(k, e). timestamp e) ev)
         \<and> (\<forall>x\<in>set ev. \<forall>y\<in>set (cacheIndex cm). y \<notin> set ev \<longrightarrow> timestamp (snd x) \<le> timestamp (snd y))
         \<and> (current_size (filter (\<lambda>x. x \<notin> set ev) (cacheIndex cm)) + n \<le> maxSize cm
              \<or> filter (\<lambda>x. x \<notin> set ev) (cacheIndex cm) = [])"
proof -
  let ?idx = "cacheIndex cm"
  let ?s = "by_timestamp ?idx"
  let ?f = "\<lambda>(k, e). timestamp e"
  have f: "?f y = timestamp (snd y)" for y :: "string \<times> CacheEntry" by (cases y) simp
  obtain w1 where
    e1: "ensureSpace rt n cm w = Some (cm\<lparr>cacheIndex := filter (\<lambda>x. x \<notin> set ev) ?idx\<rparr>, w1)"
    and e2: "unlinked (trace w1) = unlinked (trace w) @ map (\<lambda>(k, e). getCacheFilePath rt cm k) ev"
    using ensureSpace_spec[OF dist wf, of rt n w] unfolding ev by blast
  define cm' where "cm' = cm\<lparr>cacheIndex :=
      Map_set k \<lparr>key = k, data = v, timestamp = now1,
                 expiresAt = now2 + (case ttl of None \<Rightarrow> defaultTTL cm | Some t \<Rightarrow> t),
                 size_bytes = n, metadata = md\<rparr> (filter (\<lambda>x. x \<notin> set ev) ?idx)\<rparr>"
  define w' where "w' = saveCacheIndex rt cm'
      (fs_writeFile (getCacheFilePath rt (cm\<lparr>cacheIndex := filter (\<lambda>x. x \<notin> set ev) ?idx\<rparr>) k)
         (JSON_stringify rt v) w1)"
  have r: "set' rt k v ttl md now1 now2 cm w = Some (cm', w')"
    using e1 by (simp add: set'_def Let_def n[symmetric] cm'_def w'_def)
  have u: "unlinked (trace w') = unlinked (trace w) @ map (\<lambda>(k, e). getCacheFilePath rt cm k) ev"
    using e2 by (simp add: w'_def saveCacheIndex_def fs_writeFile_def unlinked_def)
  have srt: "sorted (map ?f ?s)" by (rule sorted_by_timestamp)
  have sets: "set ?s = set ?idx" by (simp add: by_timestamp_def)
  obtain m where m: "ev = take m ?s" using spec_evictions_prefix ev by blast
  have A: "ev \<noteq> [] \<and> (\<forall>x\<in>set ?idx. timestamp (snd (hd ev)) \<le> timestamp (snd x))"
    if over: "current_size ?idx + n > maxSize cm" and ne: "?idx \<noteq> []"
  proof -
    obtain h t where s: "?s = h # t"
      using ne by (cases ?s) (auto simp: by_timestamp_def sort_key_Nil_iff)
    have "ev = h # spec_evictions (maxSize cm) n t"
      using over current_size_by_timestamp[of ?idx] s ev by simp
    moreover have "\<forall>x\<in>set ?s. ?f h \<le> ?f x" using srt s by auto
    ultimately show ?thesis using sets by (simp add: f)
  qed
  have B: "sorted (map ?f ev)"
    using srt unfolding m by (simp add: take_map[symmetric] sorted_wrt_take)
  have C: "timestamp (snd x) \<le> timestamp (snd y)"
    if "x \<in> set ev" "y \<in> set ?idx" "y \<notin> set ev" for x y
  proof -
    have "?s = take m ?s @ drop m ?s" by simp
    then have "y \<in> set (drop m ?s)" using that(2,3) sets m by (metis Un_iff set_append)
    moreover have "sorted (map ?f (take m ?s) @ map ?f (drop m ?s))"
      using srt by (metis append_take_drop_id map_append)
    ultimately have "?f x \<le> ?f y" using that(1) m by (auto simp: sorted_append)
    then show ?thesis by (simp add: f)
  qed
  have ds: "distinct ?s" using dist by (simp add: by_timestamp_def distinct_map)
  have ms: "mset (filter (\<lambda>x. x \<notin> set ev) ?idx) = mset (filter (\<lambda>x. x \<notin> set ev) ?s)"
    by (simp add: by_timestamp_def)
  have D: "current_size (filter (\<lambda>x. x \<notin> set ev) ?idx) + n \<le> maxSize cm
            \<or> filter (\<lambda>x. x \<notin> set ev) ?idx = []"
    using spec_evictions_stop[OF ds, of "maxSize cm" n] current_size_mset[OF ms] ms
    unfolding ev[symmetric] by (metis mset_zero_iff)
  show ?thesis
    using r u A B C D by (intro exI[of _ cm'] exI[of _ w']) (auto simp: cm'_def)
qed


theorem set_evicts_oldest_first_witness:
  "distinct (map fst (cacheIndex example_store))
   \<and> list_all (\<lambda>(k, e). k \<noteq> [] \<and> timestamp e < MAX_SAFE_INTEGER) (cacheIndex example_store)
   \<and> current_size (cacheIndex example_store) + int (length (JSON_stringify (example_runtime []) JNull))
        > maxSize example_store
   \<and> spec_evictions (maxSize example_store) (int (length (JSON_stringify (example_runtime []) JNull)))
        (by_timestamp (cacheIndex example_store)) = [(''a'', example_entry ''a'' 1 5 4)]
   \<and> unlinked (trace (snd (the (set' (example_runtime []) ''c'' JNull None None 50 50
                                    example_store empty_world)))) = [''cache/a.json'']
   \<and> map fst (cacheIndex (fst (the (set' (example_runtime []) ''c'' JNull None None 50 50
                                    example_store empty_world)))) = [''b'', ''c'']"
proof -
  let ?rt = "example_runtime []"
  let ?n = "int (length (JSON_stringify ?rt JNull))"
  let ?ev = "spec_evictions (maxSize example_store) ?n (by_timestamp (cacheIndex example_store))"
  have h1: "distinct (map fst (cacheIndex example_store))"
    by (simp add: example_store_def)
  have h2: "\<forall>(k, e)\<in>set (cacheIndex example_store). k \<noteq> [] \<and> timestamp e < MAX_SAFE_INTEGER"
    by (simp add: example_store_def example_entry_def MAX_SAFE_INTEGER_def)
  have n: "?n = 4" by (simp add: example_runtime_def)
  have ev: "?ev = [(''a'', example_entry ''a'' 1 5 4)]"
    unfolding n
    by (simp add: example_store_def example_entry_def by_timestamp_def current_size_def
          CacheManager_new_def)
  obtain cm' w' where
    r: "set' ?rt ''c'' JNull None None 50 50 example_store empty_world = Some (cm', w')"
    and u: "unlinked (trace w') = unlinked (trace empty_world) @
              map (\<lambda>(k, e). getCacheFilePath ?rt example_store k) ?ev"
    and i: "cacheIndex cm' =
              Map_set ''c'' \<lparr>key = ''c'', data = JNull, timestamp = 50,
                              expiresAt = 50 + (case None of None \<Rightarrow> defaultTTL example_store | Some t \<Rightarrow> t),
                              size_bytes = ?n, metadata = None\<rparr>
                (filter (\<lambda>x. x \<notin> set ?ev) (cacheIndex example_store))"
    using set_evicts_oldest_first [where cm = example_store and rt = ?rt and v = JNull and k = "''c''"
            and ttl = None and md = None and ?now1.0 = 50 and ?now2.0 = 50 and w = empty_world,
            OF h1 h2 refl refl]
    by blast
  have u': "unlinked (trace w') = [''cache/a.json'']"
    using u unfolding ev
    by (simp add: empty_world_def unlinked_def getCacheFilePath_def example_store_def
          CacheManager_new_def example_runtime_def)
  have i': "map fst (cacheIndex cm') = [''b'', ''c'']"
    using i unfolding ev
    by (simp add: example_store_def example_entry_def Map_set_def CacheManager_new_def)
  have sz: "current_size (cacheIndex example_store) + ?n > maxSize example_store"
    unfolding n by (simp add: example_store_def example_entry_def current_size_def CacheManager_new_def)
  show ?thesis
    using h1 h2 ev r u' i' sz by (simp add: list_all_iff)
qed

text \<open>
  C3, as the claim states it, fails: after \<open>set a\<close> at time 1 (expiring at 5) and \<open>set b\<close>
  at time 2 (expiring at 100) in a store of capacity 8, a \<open>set c\<close> at time 50 must evict.
  The entry with the smallest timestamp among those not expired is \<open>b\<close>, but the entry
  removed first, and the only one removed, is \<open>a\<close>, which has expired.
\<close>

theorem eviction_removes_expired_entry_first:
  "unlinked (trace (snd (the (set_calls (example_runtime [])
       [\<lparr>call_key = ''a'', call_data = JNull, call_ttl = Some 4, call_metadata = None,
          call_now1 = 1, call_now2 = 1\<rparr>,
        \<lparr>call_key = ''b'', call_data = JNull, call_ttl = Some 98, call_metadata = None,
          call_now1 = 2, call_now2 = 2\<rparr>,
        \<lparr>call_key = ''c'', call_data = JNull, call_ttl = None, call_metadata = None,
          call_now1 = 50, call_now2 = 50\<rparr>]
       (CacheManager_new ''cache'' 8 1000) empty_world)))) = [''cache/a.json'']
   \<and> oldest_non_expired 50 (cacheIndex (fst (the (set_calls (example_runtime [])
       [\<lparr>call_key = ''a'', call_data = JNull, call_ttl = Some 4, call_metadata = None,
          call_now1 = 1, call_now2 = 1\<rparr>,
        \<lparr>call_key = ''b'', call_data = JNull, call_ttl = Some 98, call_metadata = None,
          call_now1 = 2, call_now2 = 2\<rparr>]
       (CacheManager_new ''cache'' 8 1000) empty_world)))) = Some ''b''"
  by code_simp
















section \<open>Properties of the orchestrator\<close>

text \<open>
  C6, as the code has it. When the template id is neither a key of the registry nor a
  property name that the registry object inherits from \<open>Object.prototype\<close>, \<open>generatePDF\<close>
  rejects with the error \<open>Template '<id>' not found\<close> before a job exists: no job is
  allocated (the ledger is unchanged), no processing starts, and once everything has
  settled the world is as it was (no validation, no cache lookup, no render).
\<close>

theorem generatePDF_unknown_template:
  assumes "opt_templateId opts \<notin> fst ` set registry"
    and "opt_templateId opts \<notin> set Object_prototype_names"
  shows "generatePDF registry jobId now clk opts g =
           (Inl (''Template '' @ [CHR 0x27] @ opt_templateId opts @ [CHR 0x27] @ '' not found''), g)
       \<and> generatePDF_settled rt col registry jobId now clk opts g w =
           Some (Inl (''Template '' @ [CHR 0x27] @ opt_templateId opts @ [CHR 0x27] @ '' not found''), g, w)"
proof -
  have "map_of registry (opt_templateId opts) = None"
    using assms(1) by (simp add: map_of_eq_None_iff)
  then have "registry_lookup registry (opt_templateId opts) = None"
    using assms(2) by (simp add: registry_lookup_def)
  then show ?thesis
    by (simp add: generatePDF_def generatePDF_settled_def)
qed

theorem generatePDF_unknown_template_witness:
  "opt_templateId (example_options ''unknown-template'') \<notin> fst ` set (TEMPLATE_REGISTRY example_schemas)
   \<and> opt_templateId (example_options ''unknown-template'') \<notin> set Object_prototype_names
   \<and> generatePDF_settled (example_runtime []) example_collaborators (TEMPLATE_REGISTRY example_schemas)
        ''job-1'' 1000 example_clock (example_options ''unknown-template'') example_generator empty_world
      = Some (Inl (''Template '' @ [CHR 0x27] @ ''unknown-template'' @ [CHR 0x27] @ '' not found''),
              example_generator, empty_world)"
proof -
  have h1: "opt_templateId (example_options ''unknown-template'')
              \<notin> fst ` set (TEMPLATE_REGISTRY example_schemas)"
    by (simp add: TEMPLATE_REGISTRY_def example_options_def)
  have h2: "opt_templateId (example_options ''unknown-template'') \<notin> set Object_prototype_names"
    by (simp add: Object_prototype_names_def example_options_def)
  show ?thesis
    using h1 h2 generatePDF_unknown_template [where registry = "TEMPLATE_REGISTRY example_schemas"
             and opts = "example_options ''unknown-template''" and jobId = "''job-1''" and now = 1000
             and clk = example_clock and g = example_generator and rt = "example_runtime []"
             and col = example_collaborators and w = empty_world, OF h1 h2]
    by (simp add: example_options_def)
qed

text \<open>
  C6, as the claim states it, fails: submitting \<open>templateId = "unknown-template"\<close> to a
  generator with an empty ledger does not return a job handle; the call rejects, and
  afterwards the ledger is still empty, so there is no job that could reach \<open>failed\<close>.
\<close>

theorem unknown_template_allocates_no_job:
  "map_option fst (generatePDF_settled (example_runtime []) example_collaborators
        (TEMPLATE_REGISTRY example_schemas)
        ''job-1'' 1000 example_clock (example_options ''unknown-template'') example_generator empty_world)
     = Some (Inl (''Template '' @ [CHR 0x27] @ ''unknown-template'' @ [CHR 0x27] @ '' not found''))
   \<and> map_option (\<lambda>r. jobs (fst (snd r)))
        (generatePDF_settled (example_runtime []) example_collaborators
           (TEMPLATE_REGISTRY example_schemas)
           ''job-1'' 1000 example_clock (example_options ''unknown-template'') example_generator empty_world)
     = Some []
   \<and> map_option (\<lambda>r. trace (snd (snd r)))
        (generatePDF_settled (example_runtime []) example_collaborators
           (TEMPLATE_REGISTRY example_schemas)
           ''job-1'' 1000 example_clock (example_options ''unknown-template'') example_generator empty_world)
     = Some []"
  by (simp add: generatePDF_settled_def generatePDF_def registry_lookup_def TEMPLATE_REGISTRY_def
        Object_prototype_names_def example_options_def example_generator_def empty_world_def)

text \<open>
  The guard of \<open>generatePDF\<close> tests the value of the lookup, not whether the id is a key of
  the registry. For a name inherited from \<open>Object.prototype\<close> that is no key of the
  registry, such as \<open>constructor\<close>, the value is truthy: the call returns a job handle, the
  ledger holds the job, and the job settles as \<open>failed\<close> with the \<open>TypeError\<close> of the missing
  schema, the world being as it was (no cache lookup, no render).
\<close>

lemma generatePDF_inherited_name:
  assumes "opt_templateId opts \<notin> fst ` set registry"
    and "opt_templateId opts \<in> set Object_prototype_names"
  shows "\<exists>job1 g1 g2.
           generatePDF registry jobId now clk opts g = (Inr job1, g1)
         \<and> status job1 = processing
         \<and> map_of (jobs g1) jobId = Some job1
         \<and> generatePDF_settled rt col registry jobId now clk opts g w = Some (Inr job1, g2, w)
         \<and> map_option status (map_of (jobs g2) jobId) = Some failed
         \<and> map_option error (map_of (jobs g2) jobId) = Some (Some TypeError_parseAsync)"
proof -
  have "map_of registry (opt_templateId opts) = None"
    using assms(1) by (simp add: map_of_eq_None_iff)
  then have "registry_lookup registry (opt_templateId opts) = Some Inherited"
    using assms(2) by (simp add: registry_lookup_def)
  then show ?thesis
    by (simp add: generatePDF_def generatePDF_settled_def processJob_rest_on_def rejected_def
          fail_job_def processJob_start_def map_of_Map_set Let_def)
qed

lemma generatePDF_constructor:
  "map_option fst (generatePDF_settled (example_runtime []) example_collaborators
        (TEMPLATE_REGISTRY example_schemas)
        ''job-1'' 1000 example_clock (example_options ''constructor'') example_generator empty_world)
     = Some (Inr \<lparr>job_id = ''job-1'', templateId = ''constructor'', status = processing,
                   progress = 10, job_data = JObj [(''total'', JNum 10)],
                   job_options = example_options ''constructor'', result = None, error = None,
                   createdAt = 1000, updatedAt = 1000, job_expiresAt = Some 86401000\<rparr>)
   \<and> map_option (\<lambda>r. map (\<lambda>(k, job). (k, status job, error job)) (jobs (fst (snd r))))
        (generatePDF_settled (example_runtime []) example_collaborators
           (TEMPLATE_REGISTRY example_schemas)
           ''job-1'' 1000 example_clock (example_options ''constructor'') example_generator empty_world)
     = Some [(''job-1'', failed, Some TypeError_parseAsync)]
   \<and> map_option (\<lambda>r. trace (snd (snd r)))
        (generatePDF_settled (example_runtime []) example_collaborators
           (TEMPLATE_REGISTRY example_schemas)
           ''job-1'' 1000 example_clock (example_options ''constructor'') example_generator empty_world)
     = Some []"
  by (simp add: generatePDF_settled_def generatePDF_def registry_lookup_def TEMPLATE_REGISTRY_def
        Object_prototype_names_def processJob_rest_on_def rejected_def fail_job_def
        processJob_start_def Map_set_def example_options_def example_generator_def
        example_clock_def empty_world_def Let_def)


text \<open>
  C8. \<open>cancelJob\<close> returns true exactly when the ledger holds the job and its status is
  \<open>pending\<close>; the job then is \<open>failed\<close> with the error \<open>Job cancelled\<close> (and a new
  \<open>updatedAt\<close>), every other job being as before. In every other case (no such job, or a
  job that is \<open>processing\<close>, \<open>completed\<close> or \<open>failed\<close>) it returns false and the ledger is
  unchanged.
\<close>

theorem cancelJob_only_pending:
  "(fst (cancelJob jobId now g) \<longleftrightarrow> (\<exists>job. map_of (jobs g) jobId = Some job \<and> status job = pending))
   \<and> (\<forall>job. map_of (jobs g) jobId = Some job \<and> status job = pending \<longrightarrow>
         snd (cancelJob jobId now g) =
           g\<lparr>jobs := Map_set jobId
                  (job\<lparr>status := failed, error := Some ''Job cancelled'', updatedAt := now\<rparr>) (jobs g)\<rparr>
         \<and> map_of (jobs (snd (cancelJob jobId now g))) jobId =
             Some (job\<lparr>status := failed, error := Some ''Job cancelled'', updatedAt := now\<rparr>)
         \<and> (\<forall>other. other \<noteq> jobId \<longrightarrow>
               map_of (jobs (snd (cancelJob jobId now g))) other = map_of (jobs g) other))
   \<and> (\<not> (\<exists>job. map_of (jobs g) jobId = Some job \<and> status job = pending) \<longrightarrow>
         cancelJob jobId now g = (False, g))"
  by (auto simp: cancelJob_def map_of_Map_set split: option.splits)



theorem cancelJob_only_pending_witness:
  "map_of (jobs example_ledger) ''j1'' = Some (example_job ''j1'' pending)
   \<and> status (example_job ''j1'' pending) = pending
   \<and> fst (cancelJob ''j1'' 2000 example_ledger)
   \<and> map_of (jobs (snd (cancelJob ''j1'' 2000 example_ledger))) ''j1''
       = Some ((example_job ''j1'' pending)
                 \<lparr>status := failed, error := Some ''Job cancelled'', updatedAt := 2000\<rparr>)
   \<and> cancelJob ''j2'' 2000 example_ledger = (False, example_ledger)
   \<and> cancelJob ''j3'' 2000 example_ledger = (False, example_ledger)
   \<and> cancelJob ''j4'' 2000 example_ledger = (False, example_ledger)
   \<and> cancelJob ''j9'' 2000 example_ledger = (False, example_ledger)"
proof -
  have l1: "map_of (jobs example_ledger) ''j1'' = Some (example_job ''j1'' pending)"
    by (simp add: example_ledger_def)
  have s1: "status (example_job ''j1'' pending) = pending" by (simp add: example_job_def)
  have n2: "\<not> (\<exists>job. map_of (jobs example_ledger) ''j2'' = Some job \<and> status job = pending)"
    by (simp add: example_ledger_def example_job_def)
  have n3: "\<not> (\<exists>job. map_of (jobs example_ledger) ''j3'' = Some job \<and> status job = pending)"
    by (simp add: example_ledger_def example_job_def)
  have n4: "\<not> (\<exists>job. map_of (jobs example_ledger) ''j4'' = Some job \<and> status job = pending)"
    by (simp add: example_ledger_def example_job_def)
  have n9: "\<not> (\<exists>job. map_of (jobs example_ledger) ''j9'' = Some job \<and> status job = pending)"
    by (simp add: example_ledger_def)
  have a: "fst (cancelJob ''j1'' 2000 example_ledger)"
    using cancelJob_only_pending [of "''j1''" 2000 example_ledger] l1 s1 by blast
  have b: "map_of (jobs (snd (cancelJob ''j1'' 2000 example_ledger))) ''j1''
       = Some ((example_job ''j1'' pending)
                 \<lparr>status := failed, error := Some ''Job cancelled'', updatedAt := 2000\<rparr>)"
    using cancelJob_only_pending [of "''j1''" 2000 example_ledger] l1 s1 by blast
  have c2: "cancelJob ''j2'' 2000 example_ledger = (False, example_ledger)"
    using cancelJob_only_pending [of "''j2''" 2000 example_ledger] n2 by blast
  have c3: "cancelJob ''j3'' 2000 example_ledger = (False, example_ledger)"
    using cancelJob_only_pending [of "''j3''" 2000 example_ledger] n3 by blast
  have c4: "cancelJob ''j4'' 2000 example_ledger = (False, example_ledger)"
    using cancelJob_only_pending [of "''j4''" 2000 example_ledger] n4 by blast
  have c9: "cancelJob ''j9'' 2000 example_ledger = (False, example_ledger)"
    using cancelJob_only_pending [of "''j9''" 2000 example_ledger] n9 by blast
  show ?thesis
    using l1 s1 a b c2 c3 c4 c9 by (intro conjI)
qed


lemma get_renderer_calls:
  "renderer_calls (trace (snd (snd (get rt k now cm w)))) = renderer_calls (trace w)"
  by (auto simp: get_def delete_def Let_def saveCacheIndex_def fs_writeFile_def fs_unlink_def
        fs_readFile_def renderer_calls_def split: option.splits prod.splits)

text \<open>
  C7. When the data passes validation and the lookup of the fingerprint hits (\<open>get\<close>
  returns a value that \<open>if (cachedResult)\<close> takes for true, as every result object that
  \<open>processJob\<close> stores is), \<open>processJob\<close> resolves with the job \<open>completed\<close>, its progress
  100 and its result the cached payload, and the run has made no call to the renderer
  boundary: the only calls that left the process are those of \<open>get\<close>, none of which loads
  assets, renders a template or converts HTML to PDF.
\<close>

theorem processJob_cache_hit:
  assumes valid: "schema templateConfig (opt_data opts) = None"
    and hit: "truthy (fst (get rt (cacheKey_of rt opts) (t_get clk) cm w))"
  shows "processJob rt col clk out_dir job templateConfig opts cm w =
           Some (None,
                 job\<lparr>status := completed, progress := 100, updatedAt := t_hit clk,
                      result := Some (fst (get rt (cacheKey_of rt opts) (t_get clk) cm w))\<rparr>,
                 fst (snd (get rt (cacheKey_of rt opts) (t_get clk) cm w)),
                 snd (snd (get rt (cacheKey_of rt opts) (t_get clk) cm w)))
       \<and> renderer_calls (trace (snd (snd (get rt (cacheKey_of rt opts) (t_get clk) cm w))))
           = renderer_calls (trace w)"
proof -
  obtain c cm1 w1 where g: "get rt (cacheKey_of rt opts) (t_get clk) cm w = (c, cm1, w1)"
    by (cases "get rt (cacheKey_of rt opts) (t_get clk) cm w") auto
  have c: "truthy c" using hit g by simp
  have "renderer_calls (trace w1) = renderer_calls (trace w)"
    using get_renderer_calls [of rt "cacheKey_of rt opts" "t_get clk" cm w] g by simp
  then show ?thesis
    using valid g c
    by (simp add: processJob_def processJob_rest_def processJob_start_def validateData_def Let_def)
qed

theorem processJob_cache_hit_witness:
  "schema example_template (opt_data (example_options ''invoice'')) = None
   \<and> truthy (fst (get (example_runtime [example_cached])
                   (cacheKey_of (example_runtime [example_cached]) (example_options ''invoice''))
                   (t_get example_clock) (fst warm_cache) (snd warm_cache)))
   \<and> map_option (\<lambda>(rejection, job, cm, w).
                    (rejection, status job, progress job, result job, renderer_calls (trace w)))
        (processJob (example_runtime [example_cached]) example_collaborators example_clock ''output''
           (example_job ''job-1'' pending) example_template (example_options ''invoice'')
           (fst warm_cache) (snd warm_cache))
       = Some (None, completed, 100, Some example_cached, [])"
proof -
  let ?rt = "example_runtime [example_cached]"
  let ?opts = "example_options ''invoice''"
  let ?g = "get ?rt (cacheKey_of ?rt ?opts) (t_get example_clock) (fst warm_cache) (snd warm_cache)"
  have h1: "schema example_template (opt_data ?opts) = None"
    by (simp add: example_template_def example_options_def)
  have v: "fst ?g = example_cached" by code_simp
  have h2: "truthy (fst ?g)" unfolding v by (simp add: example_cached_def)
  have t: "renderer_calls (trace (snd warm_cache)) = []" by code_simp
  note T = processJob_cache_hit [where templateConfig = example_template and opts = ?opts and rt = ?rt
      and clk = example_clock and cm = "fst warm_cache" and w = "snd warm_cache"
      and col = example_collaborators and out_dir = "''output''" and job = "example_job ''job-1'' pending",
      OF h1 h2]
  show ?thesis
    using h1 h2 T v t by (simp add: case_prod_unfold)
qed

end
